theory Spec2Isabelle
  imports Main
begin

unbundle bit_operations_syntax

section \<open>Errors\<close>

text \<open>
  A Go \<^verbatim>\<open>error\<close> value is the message it carries (\<^verbatim>\<open>fmt.Errorf\<close>, \<^verbatim>\<open>errors.New\<close>).
  \<open>NumError s\<close> is the error of \<^verbatim>\<open>strconv.ParseInt\<close> on the input \<open>s\<close>. A run-time
  panic (index out of range, nil dereference) is kept apart from a returned error.
\<close>

datatype error = Error string | NumError string | Panic string

definition quote :: string where
  "quote = [CHR 0x27]"

section \<open>Package sdata: the schema catalogue\<close>

datatype RelType =
  RelNone | RelOneToOne | RelOneToMany | RelPolymorphic
  | RelRecursive | RelEmbedded | RelRemote | RelSkip

text \<open>
  The declarations of \<^verbatim>\<open>DBColumn\<close> and \<^verbatim>\<open>DBTable\<close> are in a file of package
  sdata that is not part of the sources; the records hold the fields that
  schema.go, qcode.go and fn.go read or write.
\<close>

record DBColumn =
  c_ID :: int
  c_Schema :: string
  c_Table :: string
  c_Name :: string
  c_Type :: string
  c_Array :: bool
  c_UniqueKey :: bool
  c_FKeySchema :: string
  c_FKeyTable :: string
  c_FKeyCol :: string

definition zeroDBColumn :: DBColumn where
  "zeroDBColumn = \<lparr> c_ID = 0, c_Schema = [], c_Table = [], c_Name = [], c_Type = [],
     c_Array = False, c_UniqueKey = False,
     c_FKeySchema = [], c_FKeyTable = [], c_FKeyCol = [] \<rparr>"

record DBTable =
  t_Schema :: string
  t_Name :: string
  t_Type :: string
  t_Columns :: "DBColumn list"
  t_PrimaryCol :: DBColumn
  t_SecondaryCol :: DBColumn
  t_FullText :: "DBColumn list"
  t_Blocked :: bool
  t_colMap :: "string \<rightharpoonup> int"

definition zeroDBTable :: DBTable where
  "zeroDBTable = \<lparr> t_Schema = [], t_Name = [], t_Type = [], t_Columns = [],
     t_PrimaryCol = zeroDBColumn, t_SecondaryCol = zeroDBColumn, t_FullText = [],
     t_Blocked = False, t_colMap = Map.empty \<rparr>"

record DBRelThrough =
  th_Ti :: DBTable
  th_ColL :: DBColumn
  th_ColR :: DBColumn

record DBRelLeft =
  l_Ti :: DBTable
  l_Col :: DBColumn

record DBRelRight =
  r_VTable :: string
  r_Ti :: DBTable
  r_Col :: DBColumn

record DBRel =
  rel_Type :: RelType
  rel_Through :: DBRelThrough
  rel_Left :: DBRelLeft
  rel_Right :: DBRelRight

definition zeroDBRel :: DBRel where
  "zeroDBRel = \<lparr> rel_Type = RelNone,
     rel_Through = \<lparr> th_Ti = zeroDBTable, th_ColL = zeroDBColumn, th_ColR = zeroDBColumn \<rparr>,
     rel_Left = \<lparr> l_Ti = zeroDBTable, l_Col = zeroDBColumn \<rparr>,
     rel_Right = \<lparr> r_VTable = [], r_Ti = zeroDBTable, r_Col = zeroDBColumn \<rparr> \<rparr>"


text \<open>
  \<^verbatim>\<open>getColumn\<close>: the pair \<^verbatim>\<open>(c, ok)\<close> is \<open>Some c\<close> or \<open>None\<close>; an index of
  \<^verbatim>\<open>colMap\<close> outside \<^verbatim>\<open>Columns\<close> panics.
\<close>

definition getColumn :: "DBTable \<Rightarrow> string \<Rightarrow> error + DBColumn option" where
  "getColumn ti name =
     (case t_colMap ti name of
        Some i \<Rightarrow>
          if 0 \<le> i \<and> i < int (length (t_Columns ti))
          then Inr (Some (t_Columns ti ! nat i))
          else Inl (Panic ''index out of range'')
      | None \<Rightarrow> Inr None)"

definition GetColumn :: "DBTable \<Rightarrow> string \<Rightarrow> error + DBColumn" where
  "GetColumn ti name =
     (case getColumn ti name of
        Inl e \<Rightarrow> Inl e
      | Inr (Some c) \<Rightarrow> Inr c
      | Inr None \<Rightarrow>
          Inl (Error (''column: '' @ quote @ t_Name ti @ ''.'' @ name @ quote @ '' not found'')))"





section \<open>Package graph: the parsed operation\<close>

text \<open>
  The parser is not part of the sources. Its types are the ones of the parser
  contract: an operation is a type tag and a flat array of fields; a field carries
  its id, its parent's id (\<open>-1\<close> for a root), name, alias, type, arguments and
  directives; an argument is a name and a value node. A node knows its parent
  (\<^verbatim>\<open>setOrderByColName\<close> walks the chain of parents).
\<close>

datatype ParserType = NodeStr | NodeNum | NodeBool | NodeList | NodeObj | NodeVar

datatype Node =
  Node (n_Type: ParserType) (n_Name: string) (n_Val: string)
       (n_Parent: "Node option") (n_Children: "Node list")

record Arg =
  a_Name :: string
  a_Val :: Node

record Directive =
  d_Name :: string
  d_Args :: "Arg list"

datatype FieldType = FieldNone | FieldUnion | FieldMember | FieldKeyword

record Field =
  f_ID :: int
  f_ParentID :: int
  f_Name :: string
  f_Alias :: string
  f_Type :: FieldType
  f_Args :: "Arg list"
  f_Directives :: "Directive list"

datatype OpType = OpQuery | OpSub | OpMutate | OpOther string

record Operation =
  op_Type :: OpType
  op_Fields :: "Field list"

section \<open>Package qcode: the data model\<close>

datatype QType =
  QTUnknown | QTQuery | QTSubscription | QTMutation
  | QTInsert | QTUpdate | QTDelete | QTUpsert

datatype SelType = SelTypeNone | SelTypeUnion | SelTypeMember

datatype SkipType = SkipTypeNone | SkipTypeUserNeeded | SkipTypeRemote

datatype PagingType = PTOffset | PTForward | PTBackward

datatype ExpOp =
  OpNop | OpAnd | OpOr | OpNot | OpEquals | OpNotEquals
  | OpGreaterOrEquals | OpLesserOrEquals | OpGreaterThan | OpLesserThan
  | OpIn | OpNotIn | OpLike | OpNotLike | OpILike | OpNotILike
  | OpSimilar | OpNotSimilar | OpRegex | OpNotRegex | OpIRegex | OpNotIRegex
  | OpContains | OpContainedIn | OpHasKey | OpHasKeyAny | OpHasKeyAll
  | OpIsNull | OpTsQuery | OpFalse | OpNotDistinct | OpDistinct
  | OpEqualsTrue | OpNotEqualsTrue

text \<open>
  \<^verbatim>\<open>ValType\<close> and \<^verbatim>\<open>Order\<close> start at \<^verbatim>\<open>iota + 1\<close>: the zero value of a fresh
  struct is none of the named constants (\<open>ValZero\<close>, \<open>OrderZero\<close>).
\<close>

datatype ValType = ValZero | ValStr | ValNum | ValBool | ValList | ValVar | ValNone | ValRef

datatype Order =
  OrderZero | OrderAsc | OrderDesc | OrderAscNullsFirst | OrderAscNullsLast
  | OrderDescNullsFirst | OrderDescNullsLast

text \<open>
  \<^verbatim>\<open>Exp\<close>, with the fields in the order of the struct. \<^verbatim>\<open>Children\<close> is a slice of
  pointers: a child can be \<^verbatim>\<open>nil\<close> (\<^verbatim>\<open>setFilter\<close> stores the pointer it is given).
\<close>

datatype Exp =
  Exp (e_Op: ExpOp) (e_Table: string) (e_Rels: "DBRel list") (e_Col: DBColumn)
      (e_Type: ValType) (e_Val: string) (e_ListType: ValType) (e_ListVal: "string list")
      (e_Children: "Exp option list") (e_Path: "string list")

record Column =
  col_Col :: DBColumn
  col_FieldName :: string

record QArg =
  qa_Val :: string

record OrderBy =
  ob_Col :: DBColumn
  ob_Order :: Order

record Paging =
  p_Type :: PagingType
  p_LimitVar :: string
  p_Limit :: int
  p_OffsetVar :: string
  p_Offset :: int
  p_Cursor :: bool
  p_NoLimit :: bool

text \<open>
  \<^verbatim>\<open>Select\<close>. \<^verbatim>\<open>Where\<close> is the pointer of \<^verbatim>\<open>Filter\<close> (\<open>None\<close> for \<^verbatim>\<open>nil\<close>).
  \<^verbatim>\<open>Funcs\<close> is left out: it is only filled by \<^verbatim>\<open>compileColumns\<close>, which is not
  part of the sources, and a \<^verbatim>\<open>Function\<close> points back to a \<^verbatim>\<open>Select\<close>.
\<close>

record Select =
  sel_ID :: int
  sel_ParentID :: int
  sel_Type :: SelType
  sel_Singular :: bool
  sel_Typename :: bool
  sel_Table :: string
  sel_FieldName :: string
  sel_Cols :: "Column list"
  sel_BCols :: "Column list"
  sel_ArgMap :: "string \<rightharpoonup> QArg"
  sel_Where :: "Exp option"
  sel_OrderBy :: "OrderBy list"
  sel_GroupCols :: bool
  sel_DistinctOn :: "DBColumn list"
  sel_Paging :: Paging
  sel_Children :: "int list"
  sel_SkipRender :: SkipType
  sel_Ti :: DBTable
  sel_Rel :: DBRel
  sel_Joins :: "DBRel list"
  sel_order :: Order
  sel_through :: string

definition zeroSelect :: Select where
  "zeroSelect = \<lparr> sel_ID = 0, sel_ParentID = 0, sel_Type = SelTypeNone,
     sel_Singular = False, sel_Typename = False, sel_Table = [], sel_FieldName = [],
     sel_Cols = [], sel_BCols = [], sel_ArgMap = Map.empty, sel_Where = None,
     sel_OrderBy = [], sel_GroupCols = False, sel_DistinctOn = [],
     sel_Paging = \<lparr> p_Type = PTOffset, p_LimitVar = [], p_Limit = 0, p_OffsetVar = [],
                     p_Offset = 0, p_Cursor = False, p_NoLimit = False \<rparr>,
     sel_Children = [], sel_SkipRender = SkipTypeNone, sel_Ti = zeroDBTable,
     sel_Rel = zeroDBRel, sel_Joins = [], sel_order = OrderZero, sel_through = [] \<rparr>"

record Function =
  fn_Name :: string
  fn_Sel :: "Select option"
  fn_Col :: DBColumn
  fn_FieldName :: string
  fn_skip :: bool

record QCode =
  qc_Type :: QType
  qc_SType :: QType
  qc_ActionVar :: string
  qc_Selects :: "Select list"
  qc_Vars :: "string \<rightharpoonup> string"
  qc_Roots :: "int list"
  qc_Remotes :: int

definition maxSelectors :: int where
  "maxSelectors = 30"


section \<open>Access policies and the compiler\<close>

text \<open>
  Modelled from the spec: the role registry (\<^verbatim>\<open>trval\<close> and \<^verbatim>\<open>getRole\<close>) is declared
  outside schema.go, qcode.go and fn.go. For a role and a table it gives the policy
  with the four methods the compiler calls: \<^verbatim>\<open>isSkipped\<close>, \<^verbatim>\<open>isBlocked\<close> (an
  error when the role is forbidden), \<^verbatim>\<open>limit\<close> (\<open>0\<close> when there is no override) and
  \<^verbatim>\<open>filter\<close> (the baseline filter, \<^verbatim>\<open>nil\<close> when there is none, and the
  \<^verbatim>\<open>needs_user\<close> flag).
\<close>

record trval =
  tr_isSkipped :: "QType \<Rightarrow> bool"
  tr_isBlocked :: "QType \<Rightarrow> string \<Rightarrow> error option"
  tr_limit :: "QType \<Rightarrow> int"
  tr_filter :: "QType \<Rightarrow> Exp option \<times> bool"

text \<open>
  What \<^verbatim>\<open>compileColumns\<close> gives back: the values it pushes on the work stack
  (in the order of the pushes) and the projection of the select.
\<close>

record ColumnsResult =
  cr_Push :: "int list"
  cr_Cols :: "Column list"
  cr_BCols :: "Column list"
  cr_Typename :: bool
  cr_GroupCols :: bool

text \<open>
  \<^verbatim>\<open>Compiler\<close>: the configuration (\<^verbatim>\<open>co.c\<close>), the schema (\<^verbatim>\<open>co.s\<close>) through the
  methods the compiler calls, and the functions of the repository and of its
  libraries whose code is outside schema.go, qcode.go and fn.go. Each of these is a
  component, so that every theorem holds whatever they compute:
  \<^item> \<open>co_Find\<close>, \<open>co_FindPath\<close>: \<^verbatim>\<open>DBSchema.Find\<close> and \<^verbatim>\<open>DBSchema.FindPath\<close>. A
    path is kept as the list of the \<^verbatim>\<open>DBRel\<close> values that \<^verbatim>\<open>PathToRel\<close> gives for
    its edges; \<^verbatim>\<open>FindPath\<close> returns a pair, as in Go.
  \<^item> \<open>co_Parse\<close>: \<^verbatim>\<open>graph.Parse\<close>; \<open>co_Singularize\<close>: \<^verbatim>\<open>flect.Singularize\<close>.
  \<^item> \<open>co_compileArgObj\<close>: the expression builder, which gives a filter (possibly
    \<^verbatim>\<open>nil\<close>) and the \<^verbatim>\<open>needs_user\<close> flag.
  \<^item> \<open>co_idCol\<close>: the tie-breaker entry that \<^verbatim>\<open>orderByIDCol\<close> chooses for a select.
  \<^item> \<open>co_columns\<close>: what \<^verbatim>\<open>compileColumns\<close> computes.
  \<^item> \<open>co_compileMutation\<close>: the mutation pass.
  \<^item> \<open>co_addCol\<close>: \<^verbatim>\<open>Select.addCol\<close>.
\<close>

record Compiler =
  co_DBSchema :: string
  co_DefaultLimit :: int
  co_EnableInflection :: bool
  co_DBType :: string
  co_Find :: "string \<Rightarrow> string \<Rightarrow> error + DBTable"
  co_FindPath :: "string \<Rightarrow> string \<Rightarrow> DBRel list \<times> error option"
  co_Parse :: "string \<Rightarrow> error + Operation"
  co_Singularize :: "string \<Rightarrow> string"
  co_getRole :: "string \<Rightarrow> string \<Rightarrow> trval"
  co_compileArgObj :: "DBTable \<Rightarrow> Arg \<Rightarrow> error + (Exp option \<times> bool)"
  co_idCol :: "Select \<Rightarrow> error + OrderBy"
  co_columns :: "Operation \<Rightarrow> QCode \<Rightarrow> Select \<Rightarrow> Field \<Rightarrow> trval \<Rightarrow> error + ColumnsResult"
  co_compileMutation :: "QCode \<Rightarrow> Operation \<Rightarrow> string \<Rightarrow> error + QCode"
  co_addCol :: "Select \<Rightarrow> Column \<Rightarrow> bool \<Rightarrow> Select"

section \<open>Expressions and filters\<close>

text \<open>
  Modelled from the spec: \<^verbatim>\<open>newExp\<close> and \<^verbatim>\<open>newExpOp\<close> are defined outside qcode.go.
  They give a fresh node with the operator set (\<^verbatim>\<open>OpNop\<close> for \<^verbatim>\<open>newExp\<close>), no
  children and every other field at its zero value.
\<close>

definition newExpOp :: "ExpOp \<Rightarrow> Exp" where
  "newExpOp op = Exp op [] [] zeroDBColumn ValZero [] ValZero [] [] []"

definition newExp :: Exp where
  "newExp = newExpOp OpNop"

text \<open>
  \<^verbatim>\<open>setFilter\<close>: the new value of \<^verbatim>\<open>where.Exp\<close>. With a filter already there, a
  fresh \<^verbatim>\<open>OpAnd\<close> node gets the new filter as child 0 and the old one as child 1.
\<close>

definition setFilter :: "Exp option \<Rightarrow> Exp option \<Rightarrow> Exp option" where
  "setFilter wh fil =
     (case wh of
        Some ow \<Rightarrow> Some (Exp OpAnd [] [] zeroDBColumn ValZero [] ValZero [] [fil, Some ow] [])
      | None \<Rightarrow> fil)"

definition argErr :: "string \<Rightarrow> string \<Rightarrow> error" where
  "argErr name ty = Error (''value for argument '' @ quote @ name @ quote @ '' must be a '' @ ty)"

definition dbArgErr :: "string \<Rightarrow> string \<Rightarrow> string \<Rightarrow> error" where
  "dbArgErr name ty db =
     Error (db @ '': value for argument '' @ quote @ name @ quote @ '' must be a '' @ ty)"

definition addArg :: "Select \<Rightarrow> Arg \<Rightarrow> Select" where
  "addArg sel arg =
     sel\<lparr>sel_ArgMap := (sel_ArgMap sel)(a_Name arg \<mapsto> \<lparr> qa_Val = n_Val (a_Val arg) \<rparr>)\<rparr>"

section \<open>The cursor seek predicate\<close>

text \<open>
  \<^verbatim>\<open>addSeekPredicate\<close>. \<open>seekLeaf i n ob\<close> is the leaf \<^verbatim>\<open>f\<close> that the inner loop
  builds in round \<open>i\<close> of the outer loop for the \<open>n\<close>-th order column;
  \<open>seekInner\<close> is the inner loop, which stops at the first \<open>n > i\<close>. In round
  \<open>0\<close> the pointer \<^verbatim>\<open>and\<close> is still \<^verbatim>\<open>nil\<close> and the leaves go to \<^verbatim>\<open>or\<close>; in every
  later round they go to a fresh \<^verbatim>\<open>OpAnd\<close> node that is then appended to \<^verbatim>\<open>or\<close>.
\<close>

definition seekLeaf :: "nat \<Rightarrow> nat \<Rightarrow> OrderBy \<Rightarrow> Exp" where
  "seekLeaf i n ob =
     Exp (if 0 < i \<and> n \<noteq> i then OpEquals
          else if ob_Order ob = OrderDesc then OpLesserThan
          else OpGreaterThan)
       ''__cur'' [] (ob_Col ob) ValRef (c_Name (ob_Col ob)) ValZero [] [] []"

fun seekInner :: "nat \<Rightarrow> nat \<Rightarrow> OrderBy list \<Rightarrow> Exp list" where
  "seekInner i n [] = []"
| "seekInner i n (ob # obs) =
     (if i < n then [] else seekLeaf i n ob # seekInner i (Suc n) obs)"

definition addChildren :: "Exp \<Rightarrow> Exp option list \<Rightarrow> Exp" where
  "addChildren ex cs =
     Exp (e_Op ex) (e_Table ex) (e_Rels ex) (e_Col ex) (e_Type ex) (e_Val ex)
       (e_ListType ex) (e_ListVal ex) (e_Children ex @ cs) (e_Path ex)"

definition seekRound :: "OrderBy list \<Rightarrow> nat \<Rightarrow> Exp \<Rightarrow> Exp" where
  "seekRound obs i orE =
     (if i \<noteq> 0
      then addChildren orE
             [Some (addChildren (newExpOp OpAnd) (map Some (seekInner i 0 obs)))]
      else addChildren orE (map Some (seekInner i 0 obs)))"

definition addSeekPredicate :: "Select \<Rightarrow> Select" where
  "addSeekPredicate sel =
     (let obs = sel_OrderBy sel;
          obLen = length obs;
          or0 = (case obs of
                   [] \<Rightarrow> None
                 | ob0 # _ \<Rightarrow>
                     Some (addChildren (newExpOp OpOr)
                       [Some (Exp OpIsNull ''__cur'' [] (ob_Col ob0) ValRef ''true''
                                ValZero [] [] [])]));
          orE = (case or0 of
                   None \<Rightarrow> None
                 | Some e \<Rightarrow> Some (fold (seekRound obs) [0..<obLen] e))
      in sel\<lparr>sel_Where := setFilter (sel_Where sel) orE\<rparr>)"

text \<open>
  \<^verbatim>\<open>addFilters\<close>, on the current \<^verbatim>\<open>Where\<close>: the new \<^verbatim>\<open>Where\<close> and the returned flag.
\<close>

definition addFilters :: "QCode \<Rightarrow> Exp option \<Rightarrow> trval \<Rightarrow> Exp option \<times> bool" where
  "addFilters qc wh trv =
     (case tr_filter trv (qc_SType qc) of
        (Some fil, userNeeded) \<Rightarrow>
          (case e_Op fil of
             OpNop \<Rightarrow> (wh, userNeeded)
           | OpFalse \<Rightarrow> (Some fil, userNeeded)
           | _ \<Rightarrow> (setFilter wh (Some fil), userNeeded))
      | (None, _) \<Rightarrow> (wh, False))"


section \<open>Directives\<close>

definition compileDirectiveSkip :: "Select \<Rightarrow> Directive \<Rightarrow> error + Select" where
  "compileDirectiveSkip sel d =
     (case d_Args d of
        [] \<Rightarrow> Inl (Error (''@skip: required argument '' @ quote @ ''if'' @ quote @ '' missing''))
      | arg # _ \<Rightarrow>
          if a_Name arg \<noteq> ''if''
          then Inl (Error (''@skip: required argument '' @ quote @ ''if'' @ quote @ '' missing''))
          else if n_Type (a_Val arg) \<noteq> NodeVar then Inl (argErr ''if'' ''variable'')
          else Inr (sel\<lparr>sel_Where := setFilter (sel_Where sel)
                 (Some (Exp OpNotEqualsTrue [] [] zeroDBColumn ValVar (n_Val (a_Val arg))
                          ValZero [] [] []))\<rparr>))"

definition compileDirectiveInclude :: "Select \<Rightarrow> Directive \<Rightarrow> error + Select" where
  "compileDirectiveInclude sel d =
     (case d_Args d of
        [] \<Rightarrow> Inl (Error (''@include: required argument '' @ quote @ ''if'' @ quote @ '' missing''))
      | arg # _ \<Rightarrow>
          if a_Name arg \<noteq> ''if''
          then Inl (Error (''@include: required argument '' @ quote @ ''if'' @ quote @ '' missing''))
          else if n_Type (a_Val arg) \<noteq> NodeVar then Inl (argErr ''if'' ''variable'')
          else Inr (sel\<lparr>sel_Where := setFilter (sel_Where sel)
                 (Some (Exp OpEqualsTrue [] [] zeroDBColumn ValVar (n_Val (a_Val arg))
                          ValZero [] [] []))\<rparr>))"

definition compileDirectiveNotRelated :: "Select \<Rightarrow> Directive \<Rightarrow> error + Select" where
  "compileDirectiveNotRelated sel d = Inr (sel\<lparr>sel_Rel := (sel_Rel sel)\<lparr>rel_Type := RelSkip\<rparr>\<rparr>)"

definition compileDirectiveThrough :: "Select \<Rightarrow> Directive \<Rightarrow> error + Select" where
  "compileDirectiveThrough sel d =
     (case d_Args d of
        [] \<Rightarrow> Inl (Error (''@through: required argument '' @ quote @ ''table'' @ quote @ '' missing''))
      | arg # _ \<Rightarrow>
          if a_Name arg \<noteq> ''table''
          then Inl (Error (''@through: required argument '' @ quote @ ''table'' @ quote @ '' missing''))
          else if n_Type (a_Val arg) \<noteq> NodeStr then Inl (argErr ''table'' ''string'')
          else Inr (sel\<lparr>sel_through := n_Val (a_Val arg)\<rparr>))"

fun compileDirectives :: "Select \<Rightarrow> Directive list \<Rightarrow> error + Select" where
  "compileDirectives sel [] = Inr sel"
| "compileDirectives sel (d # dirs) =
     (case (if d_Name d = ''skip'' then compileDirectiveSkip sel d
            else if d_Name d = ''include'' then compileDirectiveInclude sel d
            else if d_Name d = ''not_related'' then compileDirectiveNotRelated sel d
            else if d_Name d = ''through'' then compileDirectiveThrough sel d
            else if d_Name d = ''object'' then Inr (sel\<lparr>sel_Singular := True\<rparr>)
            else Inr sel) of
        Inl e \<Rightarrow> Inl e
      | Inr sel' \<Rightarrow> compileDirectives sel' dirs)"

section \<open>Arguments\<close>

text \<open>
  \<^verbatim>\<open>strconv.ParseInt(s, 10, 32)\<close>: an optional sign and at least one decimal digit,
  with a value that fits 32 bits; \<open>None\<close> stands for its error.
\<close>

definition digitVal :: "char \<Rightarrow> nat option" where
  "digitVal c =
     (let n = (of_char c :: nat) in if 48 \<le> n \<and> n \<le> 57 then Some (n - 48) else None)"

fun digitsVal :: "nat \<Rightarrow> string \<Rightarrow> nat option" where
  "digitsVal acc [] = Some acc"
| "digitsVal acc (c # cs) =
     (case digitVal c of None \<Rightarrow> None | Some d \<Rightarrow> digitsVal (10 * acc + d) cs)"

definition ParseInt32 :: "string \<Rightarrow> int option" where
  "ParseInt32 s =
     (let neg = (s \<noteq> [] \<and> hd s = CHR ''-'');
          ds = (if s \<noteq> [] \<and> (hd s = CHR ''+'' \<or> hd s = CHR ''-'') then tl s else s)
      in if ds = [] then None
         else case digitsVal 0 ds of
                None \<Rightarrow> None
              | Some n \<Rightarrow>
                  let v = (if neg then - int n else int n) in
                  if - (2 ^ 31) \<le> v \<and> v < 2 ^ 31 then Some v else None)"

definition compileArgFind :: "Select \<Rightarrow> Arg \<Rightarrow> error + Select" where
  "compileArgFind sel arg =
     (if rel_Type (sel_Rel sel) \<noteq> RelRecursive
      then Inl (Error (''find: selector '' @ quote @ sel_FieldName sel @ quote @ '' is not recursive''))
      else if n_Val (a_Val arg) \<noteq> ''parents'' \<and> n_Val (a_Val arg) \<noteq> ''children''
      then Inl (Error (''find: valid values '' @ quote @ ''parents'' @ quote @ '' or ''
                       @ quote @ ''children'' @ quote))
      else Inr (addArg sel arg))"

text \<open>
  \<^verbatim>\<open>compileArgID\<close>. The last two statements assign \<^verbatim>\<open>sel.Where.Exp = ex\<close> and
  \<^verbatim>\<open>sel.Singular = true\<close>.
\<close>

definition compileArgID :: "Select \<Rightarrow> Arg \<Rightarrow> error + Select" where
  "compileArgID sel arg =
     (let node = a_Val arg in
      if sel_ParentID sel \<noteq> -1
      then Inl (Error (''argument '' @ quote @ ''id'' @ quote
                       @ '' can only be specified at the query root''))
      else if n_Type node \<noteq> NodeNum \<and> n_Type node \<noteq> NodeStr \<and> n_Type node \<noteq> NodeVar
      then Inl (argErr ''id'' ''number, string or variable'')
      else if c_Name (t_PrimaryCol (sel_Ti sel)) = []
      then Inl (Error (''no primary key column defined for '' @ sel_Table sel))
      else
        let col = t_PrimaryCol (sel_Ti sel) in
        case (case n_Type node of
                NodeNum \<Rightarrow>
                  (case ParseInt32 (n_Val node) of
                     None \<Rightarrow> Inl (NumError (n_Val node))
                   | Some _ \<Rightarrow> Inr (Exp OpEquals [] [] col ValNum (n_Val node) ValZero [] [] []))
              | NodeStr \<Rightarrow> Inr (Exp OpEquals [] [] col ValStr (n_Val node) ValZero [] [] [])
              | NodeVar \<Rightarrow> Inr (Exp OpEquals [] [] col ValVar (n_Val node) ValZero [] [] [])
              | _ \<Rightarrow> Inr (Exp OpEquals [] [] col ValZero [] ValZero [] [] [])) of
          Inl e \<Rightarrow> Inl e
        | Inr ex \<Rightarrow> Inr (sel\<lparr>sel_Where := Some ex, sel_Singular := True\<rparr>))"

definition compileArgSearch :: "Compiler \<Rightarrow> Select \<Rightarrow> Arg \<Rightarrow> error + Select" where
  "compileArgSearch co sel arg =
     (if t_FullText (sel_Ti sel) = []
      then (if co_DBType co = ''mysql''
            then Inl (Error (''no fulltext indexes defined for table '' @ quote @ sel_Table sel @ quote))
            else Inl (Error (''no tsvector column defined on table '' @ quote @ sel_Table sel @ quote)))
      else if n_Type (a_Val arg) \<noteq> NodeVar then Inl (argErr ''search'' ''variable'')
      else
        let sel1 = addArg sel arg in
        Inr (sel1\<lparr>sel_Where := setFilter (sel_Where sel1)
               (Some (Exp OpTsQuery [] [] zeroDBColumn ValVar (n_Val (a_Val arg))
                        ValZero [] [] []))\<rparr>))"

definition compileArgWhere :: "Compiler \<Rightarrow> DBTable \<Rightarrow> Select \<Rightarrow> Arg \<Rightarrow> string \<Rightarrow> error + Select" where
  "compileArgWhere co ti sel arg role =
     (case co_compileArgObj co ti arg of
        Inl e \<Rightarrow> Inl e
      | Inr (ex, nu) \<Rightarrow>
          let sel1 = (if nu \<and> role = ''anon''
                      then sel\<lparr>sel_SkipRender := SkipTypeUserNeeded\<rparr> else sel)
          in Inr (sel1\<lparr>sel_Where := setFilter (sel_Where sel1) ex\<rparr>))"


text \<open>
  Modelled from the spec: the work stacks of package util (\<^verbatim>\<open>StackInf\<close>,
  \<^verbatim>\<open>StackInt32\<close>) are outside the three files. A stack is the list of its
  elements, the top first; \<^verbatim>\<open>Pop\<close> takes the head.
\<close>

definition Push :: "'a \<Rightarrow> 'a list \<Rightarrow> 'a list" where
  "Push x st = x # st"

text \<open>
  \<^verbatim>\<open>setOrderByColName\<close>: \<open>nodeNames\<close> is the list that the walk up the parents
  builds, each non-empty name put in front of the ones found before.
\<close>

fun nodeNames :: "Node \<Rightarrow> string list" where
  "nodeNames (Node ty name val parent children) =
     (case parent of None \<Rightarrow> [] | Some p \<Rightarrow> nodeNames p) @ (if name \<noteq> [] then [name] else [])"

fun buildPath :: "string list \<Rightarrow> string" where
  "buildPath [] = []"
| "buildPath [a] = a"
| "buildPath (a # as) = a @ concat (map (\<lambda>s. CHR ''.'' # s) as)"

definition setOrderByColName :: "DBTable \<Rightarrow> OrderBy \<Rightarrow> Node \<Rightarrow> error + OrderBy" where
  "setOrderByColName ti ob node =
     (let list = nodeNames node in
      if list \<noteq> []
      then (case GetColumn ti (buildPath list) of
              Inl e \<Rightarrow> Inl e
            | Inr col \<Rightarrow> Inr (ob\<lparr>ob_Col := col\<rparr>))
      else Inr ob)"

definition orderOf :: "string \<Rightarrow> Order option" where
  "orderOf v =
     (if v = ''asc'' then Some OrderAsc
      else if v = ''desc'' then Some OrderDesc
      else if v = ''asc_nulls_first'' then Some OrderAscNullsFirst
      else if v = ''desc_nulls_first'' then Some OrderDescNullsFirst
      else if v = ''asc_nulls_last'' then Some OrderAscNullsLast
      else if v = ''desc_nulls_last'' then Some OrderDescNullsLast
      else None)"

text \<open>
  \<^verbatim>\<open>compileArgOrderBy\<close>. \<open>cm\<close> holds the names of the columns that are in
  \<^verbatim>\<open>sel.OrderBy\<close> when the argument is reached (the map stays \<^verbatim>\<open>nil\<close>, with no key,
  when \<^verbatim>\<open>sel.OrderBy\<close> is empty); the loop never adds to it. \<open>orderByNode\<close> is the
  body of the loop for the node popped, \<open>orderByLoop\<close> the loop over the stack,
  which appends to \<^verbatim>\<open>obList\<close>.
\<close>

definition orderByNode :: "DBTable \<Rightarrow> string list \<Rightarrow> Node \<Rightarrow> error + OrderBy" where
  "orderByNode ti cm node =
     (if n_Type node \<noteq> NodeStr \<and> n_Type node \<noteq> NodeVar
      then Inl (Error ''expecting a string or variable'')
      else
        case orderOf (n_Val node) of
          None \<Rightarrow>
            Inl (Error ''valid values include asc, desc, asc_nulls_first and desc_nulls_first'')
        | Some ord \<Rightarrow>
            (case setOrderByColName ti \<lparr> ob_Col = zeroDBColumn, ob_Order = ord \<rparr> node of
               Inl e \<Rightarrow> Inl e
             | Inr ob \<Rightarrow>
                 if c_Name (ob_Col ob) \<in> set cm
                 then Inl (Error (''duplicate column in order by: '' @ c_Name (ob_Col ob)))
                 else Inr ob))"

fun orderByLoop :: "DBTable \<Rightarrow> string list \<Rightarrow> Node list \<Rightarrow> OrderBy list \<Rightarrow> error + OrderBy list" where
  "orderByLoop ti cm [] obList = Inr obList"
| "orderByLoop ti cm (node # st) obList =
     (case orderByNode ti cm node of
        Inl e \<Rightarrow> Inl e
      | Inr ob \<Rightarrow> orderByLoop ti cm st (obList @ [ob]))"

definition compileArgOrderBy :: "Select \<Rightarrow> Arg \<Rightarrow> error + Select" where
  "compileArgOrderBy sel arg =
     (if n_Type (a_Val arg) \<noteq> NodeObj then Inl (Error ''expecting an object'')
      else
        let cm = map (\<lambda>ob. c_Name (ob_Col ob)) (sel_OrderBy sel);
            st = fold Push (n_Children (a_Val arg)) []
        in case orderByLoop (sel_Ti sel) cm st [] of
             Inl e \<Rightarrow> Inl e
           | Inr obList \<Rightarrow> Inr (sel\<lparr>sel_OrderBy := sel_OrderBy sel @ rev obList\<rparr>))"

definition distinctOnCol :: "Compiler \<Rightarrow> Select \<Rightarrow> string \<Rightarrow> error + Select" where
  "distinctOnCol co sel name =
     (case GetColumn (sel_Ti sel) name of
        Inl e \<Rightarrow> Inl e
      | Inr col \<Rightarrow>
          if co_DBType co = ''mysql''
          then Inr (sel\<lparr>sel_OrderBy := sel_OrderBy sel @ [\<lparr> ob_Col = col, ob_Order = OrderAsc \<rparr>]\<rparr>)
          else Inr (sel\<lparr>sel_DistinctOn := sel_DistinctOn sel @ [col]\<rparr>))"

fun distinctOnLoop :: "Compiler \<Rightarrow> Select \<Rightarrow> Node list \<Rightarrow> error + Select" where
  "distinctOnLoop co sel [] = Inr sel"
| "distinctOnLoop co sel (cn # cns) =
     (case distinctOnCol co sel (n_Val cn) of
        Inl e \<Rightarrow> Inl e
      | Inr sel' \<Rightarrow> distinctOnLoop co sel' cns)"

definition compileArgDistinctOn :: "Compiler \<Rightarrow> Select \<Rightarrow> Arg \<Rightarrow> error + Select" where
  "compileArgDistinctOn co sel arg =
     (let node = a_Val arg in
      if n_Type node \<noteq> NodeList \<and> n_Type node \<noteq> NodeStr
      then Inl (Error ''expecting a list of strings or just a string'')
      else
        case (if n_Type node = NodeStr then distinctOnCol co sel (n_Val node) else Inr sel) of
          Inl e \<Rightarrow> Inl e
        | Inr sel1 \<Rightarrow> distinctOnLoop co sel1 (n_Children node))"

definition compileArgLimit :: "Compiler \<Rightarrow> Select \<Rightarrow> Arg \<Rightarrow> error + Select" where
  "compileArgLimit co sel arg =
     (let node = a_Val arg in
      if n_Type node \<noteq> NodeNum \<and> n_Type node \<noteq> NodeVar
      then Inl (argErr ''limit'' ''number or variable'')
      else if n_Type node = NodeNum
      then (case ParseInt32 (n_Val node) of
              None \<Rightarrow> Inl (NumError (n_Val node))
            | Some n \<Rightarrow> Inr (sel\<lparr>sel_Paging := (sel_Paging sel)\<lparr>p_Limit := n\<rparr>\<rparr>))
      else if co_DBType co = ''mysql'' then Inl (dbArgErr ''limit'' ''number'' ''mysql'')
      else Inr (sel\<lparr>sel_Paging := (sel_Paging sel)\<lparr>p_LimitVar := n_Val node\<rparr>\<rparr>))"

definition compileArgOffset :: "Compiler \<Rightarrow> Select \<Rightarrow> Arg \<Rightarrow> error + Select" where
  "compileArgOffset co sel arg =
     (let node = a_Val arg in
      if n_Type node \<noteq> NodeNum \<and> n_Type node \<noteq> NodeVar
      then Inl (argErr ''offset'' ''number or variable'')
      else if n_Type node = NodeNum
      then (case ParseInt32 (n_Val node) of
              None \<Rightarrow> Inl (NumError (n_Val node))
            | Some n \<Rightarrow> Inr (sel\<lparr>sel_Paging := (sel_Paging sel)\<lparr>p_Offset := n\<rparr>\<rparr>))
      else if co_DBType co = ''mysql'' then Inl (dbArgErr ''limit'' ''number'' ''mysql'')
      else Inr (sel\<lparr>sel_Paging := (sel_Paging sel)\<lparr>p_OffsetVar := n_Val node\<rparr>\<rparr>))"

definition compileArgFirstLast :: "Compiler \<Rightarrow> Select \<Rightarrow> Arg \<Rightarrow> Order \<Rightarrow> error + Select" where
  "compileArgFirstLast co sel arg ord =
     (case compileArgLimit co sel arg of
        Inl e \<Rightarrow> Inl e
      | Inr sel1 \<Rightarrow>
          let sel2 = (if \<not> sel_Singular sel1
                      then sel1\<lparr>sel_Paging := (sel_Paging sel1)\<lparr>p_Cursor := True\<rparr>\<rparr> else sel1)
          in Inr (sel2\<lparr>sel_order := ord\<rparr>))"

definition compileArgAfterBefore :: "Select \<Rightarrow> Arg \<Rightarrow> PagingType \<Rightarrow> error + Select" where
  "compileArgAfterBefore sel arg pt =
     (let node = a_Val arg in
      if n_Type node \<noteq> NodeVar \<or> n_Val node \<noteq> ''cursor''
      then Inl (Error (''value for argument '' @ quote @ a_Name arg @ quote
                       @ '' must be a variable named $cursor''))
      else
        let sel1 = sel\<lparr>sel_Paging := (sel_Paging sel)\<lparr>p_Type := pt\<rparr>\<rparr> in
        Inr (if \<not> sel_Singular sel1
             then sel1\<lparr>sel_Paging := (sel_Paging sel1)\<lparr>p_Cursor := True\<rparr>\<rparr> else sel1))"

definition compileArg :: "Compiler \<Rightarrow> Select \<Rightarrow> Arg \<Rightarrow> string \<Rightarrow> error + Select" where
  "compileArg co sel arg role =
     (let name = a_Name arg in
      if name = ''id'' then compileArgID sel arg
      else if name = ''search'' then compileArgSearch co sel arg
      else if name = ''where'' then compileArgWhere co (sel_Ti sel) sel arg role
      else if name = ''orderby'' \<or> name = ''order_by'' \<or> name = ''order''
      then compileArgOrderBy sel arg
      else if name = ''distinct_on'' \<or> name = ''distinct'' then compileArgDistinctOn co sel arg
      else if name = ''limit'' then compileArgLimit co sel arg
      else if name = ''offset'' then compileArgOffset co sel arg
      else if name = ''first'' then compileArgFirstLast co sel arg OrderAsc
      else if name = ''last'' then compileArgFirstLast co sel arg OrderDesc
      else if name = ''after'' then compileArgAfterBefore sel arg PTForward
      else if name = ''before'' then compileArgAfterBefore sel arg PTBackward
      else if name = ''find'' then compileArgFind sel arg
      else Inr sel)"

fun compileArgs :: "Compiler \<Rightarrow> Select \<Rightarrow> Arg list \<Rightarrow> string \<Rightarrow> error + Select" where
  "compileArgs co sel [] role = Inr sel"
| "compileArgs co sel (arg # args) role =
     (case compileArg co sel arg role of
        Inl e \<Rightarrow> Inl e
      | Inr sel' \<Rightarrow> compileArgs co sel' args role)"

definition validateSelect :: "Select \<Rightarrow> error option" where
  "validateSelect sel =
     (if rel_Type (sel_Rel sel) = RelRecursive
      then (case sel_ArgMap sel ''find'' of
              None \<Rightarrow> Some (Error (''arguments: '' @ quote @ ''find'' @ quote
                                   @ '' needed for recursive queries''))
            | Some v \<Rightarrow>
                if qa_Val v \<noteq> ''parents'' \<and> qa_Val v \<noteq> ''children''
                then Some (Error (''find: valid values are '' @ quote @ ''parents'' @ quote
                                  @ '' and '' @ quote @ ''children'' @ quote))
                else None)
      else None)"


section \<open>The mutation type\<close>

definition setActionVar :: "QCode \<Rightarrow> Arg \<Rightarrow> error + QCode" where
  "setActionVar qc arg =
     (if n_Type (a_Val arg) \<noteq> NodeVar then Inl (argErr (a_Name arg) ''variable'')
      else Inr (qc\<lparr>qc_ActionVar := n_Val (a_Val arg)\<rparr>))"

text \<open>
  \<^verbatim>\<open>setMutationType\<close>: the loop returns at the first argument named
  \<^verbatim>\<open>insert\<close>, \<^verbatim>\<open>update\<close>, \<^verbatim>\<open>upsert\<close> or \<^verbatim>\<open>delete\<close>.
\<close>

fun setMutationType :: "QCode \<Rightarrow> Arg list \<Rightarrow> error + QCode" where
  "setMutationType qc [] = Inr qc"
| "setMutationType qc (arg # args) =
     (if a_Name arg = ''insert'' then setActionVar (qc\<lparr>qc_SType := QTInsert\<rparr>) arg
      else if a_Name arg = ''update'' then setActionVar (qc\<lparr>qc_SType := QTUpdate\<rparr>) arg
      else if a_Name arg = ''upsert'' then setActionVar (qc\<lparr>qc_SType := QTUpsert\<rparr>) arg
      else if a_Name arg = ''delete''
      then (if n_Type (a_Val arg) \<noteq> NodeBool then Inl (argErr (a_Name arg) ''boolen'')
            else if n_Val (a_Val arg) = ''false''
            then Inr (qc\<lparr>qc_SType := QTDelete, qc_Type := QTQuery\<rparr>)
            else Inr (qc\<lparr>qc_SType := QTDelete\<rparr>))
      else setMutationType qc args)"

section \<open>Relationship binding\<close>

definition isSingularRel :: "DBRel \<Rightarrow> bool" where
  "isSingularRel r \<longleftrightarrow>
     (rel_Type r = RelOneToMany \<and> \<not> c_Array (r_Col (rel_Right r))) \<or> rel_Type r = RelPolymorphic"

definition setSingular :: "Compiler \<Rightarrow> string \<Rightarrow> Select \<Rightarrow> Select" where
  "setSingular co fieldName sel =
     (if sel_Singular sel then sel
      else
        let sel1 = (if co_EnableInflection co
                    then sel\<lparr>sel_Singular := (co_Singularize co fieldName = fieldName)\<rparr>
                    else sel)
        in if isSingularRel (sel_Rel sel1) then sel1\<lparr>sel_Singular := True\<rparr>
           else if sel_Joins sel1 = [] then sel1
           else if isSingularRel (last (sel_Joins sel1)) then sel1\<lparr>sel_Singular := True\<rparr>
           else sel1)"

definition int32 :: "int \<Rightarrow> int" where
  "int32 x = (x + 2 ^ 31) mod 2 ^ 32 - 2 ^ 31"

definition setLimit :: "Compiler \<Rightarrow> trval \<Rightarrow> QCode \<Rightarrow> Select \<Rightarrow> Select" where
  "setLimit co tr qc sel =
     (let l = tr_limit tr (qc_Type qc) in
      if l \<noteq> 0 then sel\<lparr>sel_Paging := (sel_Paging sel)\<lparr>p_Limit := l\<rparr>\<rparr>
      else if co_DefaultLimit co \<noteq> 0
      then sel\<lparr>sel_Paging := (sel_Paging sel)\<lparr>p_Limit := int32 (co_DefaultLimit co)\<rparr>\<rparr>
      else sel\<lparr>sel_Paging := (sel_Paging sel)\<lparr>p_Limit := 20\<rparr>\<rparr>)"

definition zeroField :: Field where
  "zeroField = \<lparr> f_ID = 0, f_ParentID = 0, f_Name = [], f_Alias = [], f_Type = FieldNone,
     f_Args = [], f_Directives = [] \<rparr>"

text \<open>
  \<^verbatim>\<open>addRelInfo\<close>, in three parts. \<open>linkParent\<close> is the first \<^verbatim>\<open>if\<close>: a root goes to
  \<^verbatim>\<open>qc.Roots\<close>; otherwise \<^verbatim>\<open>psel\<close> points into \<^verbatim>\<open>qc.Selects\<close> (the index is
  checked, as Go does) and the child's id is appended to the \<^verbatim>\<open>Children\<close> of that
  element of \<^verbatim>\<open>qc.Selects\<close>. It gives the new QCode, \<^verbatim>\<open>psel\<close> and \<^verbatim>\<open>parentF\<close>.
\<close>

definition linkParent ::
  "Operation \<Rightarrow> QCode \<Rightarrow> Select \<Rightarrow> Field \<Rightarrow> error + (QCode \<times> Select option \<times> Field)" where
  "linkParent op qc sel field =
     (if sel_ParentID sel = -1
      then Inr (qc\<lparr>qc_Roots := qc_Roots qc @ [sel_ID sel]\<rparr>, None, zeroField)
      else if \<not> (0 \<le> sel_ParentID sel \<and> sel_ParentID sel < int (length (qc_Selects qc)))
      then Inl (Panic ''index out of range'')
      else
        let i = nat (sel_ParentID sel);
            psel = (qc_Selects qc ! i)\<lparr>sel_Children := sel_Children (qc_Selects qc ! i) @ [sel_ID sel]\<rparr>;
            qc1 = qc\<lparr>qc_Selects := (qc_Selects qc)[i := psel]\<rparr>
        in if \<not> (0 \<le> f_ParentID field \<and> f_ParentID field < int (length (op_Fields op)))
           then Inl (Panic ''index out of range'')
           else Inr (qc1, Some psel, op_Fields op ! nat (f_ParentID field)))"

text \<open>
  \<open>fieldKind\<close> is the \<^verbatim>\<open>switch field.Type\<close>: it gives the select, \<^verbatim>\<open>childF\<close> and
  \<^verbatim>\<open>parentF\<close>. A member fragment reads \<^verbatim>\<open>psel.Singular\<close>, a nil dereference when
  there is no parent.
\<close>

definition fieldKind ::
  "Operation \<Rightarrow> Select \<Rightarrow> Field \<Rightarrow> Select option \<Rightarrow> Field \<Rightarrow> error + (Select \<times> Field \<times> Field)" where
  "fieldKind op sel field psel parentF =
     (case f_Type field of
        FieldUnion \<Rightarrow>
          if psel = None
          then Inl (Error ''union types are only valid with polymorphic relationships'')
          else Inr (sel\<lparr>sel_Type := SelTypeUnion\<rparr>, field, parentF)
      | FieldMember \<Rightarrow>
          (case psel of
             None \<Rightarrow> Inl (Panic ''nil pointer dereference'')
           | Some ps \<Rightarrow>
               if \<not> (0 \<le> f_ParentID parentF \<and> f_ParentID parentF < int (length (op_Fields op)))
               then Inl (Panic ''index out of range'')
               else Inr (sel\<lparr>sel_Type := SelTypeMember, sel_Singular := sel_Singular ps\<rparr>,
                         parentF, op_Fields op ! nat (f_ParentID parentF)))
      | _ \<Rightarrow> Inr (sel, field, parentF))"

definition bindTable ::
  "Compiler \<Rightarrow> QCode \<Rightarrow> Select \<Rightarrow> Field \<Rightarrow> Field \<Rightarrow> Field \<Rightarrow> error + (QCode \<times> Select)" where
  "bindTable co qc sel field childF parentF =
     (if rel_Type (sel_Rel sel) = RelSkip
      then Inr (qc, sel\<lparr>sel_Rel := (sel_Rel sel)\<lparr>rel_Type := RelNone\<rparr>\<rparr>)
      else
        case (if sel_ParentID sel \<noteq> -1
              then (case co_FindPath co (f_Name childF) (f_Name parentF) of
                      (paths, Some e) \<Rightarrow> Inl e
                    | ([], None) \<Rightarrow>
                        Inl (Error (''no relationship found: '' @ f_Name childF @ '' -> ''
                                    @ f_Name parentF))
                    | (p # ps, None) \<Rightarrow>
                        Inr (sel\<lparr>sel_Rel := p, sel_Joins := sel_Joins sel @ ps\<rparr>))
              else Inr sel) of
          Inl e \<Rightarrow> Inl e
        | Inr sel2 \<Rightarrow>
            (case (if sel_ParentID sel2 = -1 \<or> rel_Type (sel_Rel sel2) = RelPolymorphic
                   then (case co_Find co (co_DBSchema co) (f_Name field) of
                           Inl e \<Rightarrow> Inl e
                         | Inr ti \<Rightarrow> Inr (sel2\<lparr>sel_Ti := ti\<rparr>))
                   else Inr (sel2\<lparr>sel_Ti := l_Ti (rel_Left (sel_Rel sel2))\<rparr>)) of
               Inl e \<Rightarrow> Inl e
             | Inr sel3 \<Rightarrow>
                 if t_Blocked (sel_Ti sel3)
                 then Inl (Error (''table: '' @ quote @ ''true'' @ quote @ '' ('' @ f_Name field
                                  @ '') blocked''))
                 else
                   let sel4 = sel3\<lparr>sel_Table := t_Name (sel_Ti sel3)\<rparr> in
                   if rel_Type (sel_Rel sel4) = RelRemote
                   then Inr (qc\<lparr>qc_Remotes := qc_Remotes qc + 1\<rparr>,
                             sel4\<lparr>sel_Table := f_Name field\<rparr>)
                   else Inr (qc, setSingular co (f_Name field) sel4)))"

definition addRelInfo ::
  "Compiler \<Rightarrow> Operation \<Rightarrow> QCode \<Rightarrow> Select \<Rightarrow> Field \<Rightarrow> error + (QCode \<times> Select)" where
  "addRelInfo co op qc sel field =
     (case linkParent op qc sel field of
        Inl e \<Rightarrow> Inl e
      | Inr (qc1, psel, parentF) \<Rightarrow>
          (case fieldKind op sel field psel parentF of
             Inl e \<Rightarrow> Inl e
           | Inr (sel1, childF, parentF1) \<Rightarrow> bindTable co qc1 sel1 field childF parentF1))"


section \<open>Aggregates over another table (fn.go)\<close>

text \<open>
  \<^verbatim>\<open>strings.Split(s, "__")\<close>: \<open>splitUU cur s\<close> cuts \<open>s\<close> at each \<^verbatim>\<open>__\<close>, from
  the left, \<open>cur\<close> being the part read so far (reversed). The result is never
  empty.
\<close>

fun splitUU :: "string \<Rightarrow> string \<Rightarrow> string list" where
  "splitUU cur [] = [rev cur]"
| "splitUU cur [c] = [rev (c # cur)]"
| "splitUU cur (c # d # s) =
     (if c = CHR ''_'' \<and> d = CHR ''_'' then rev cur # splitUU [] s
      else splitUU (c # cur) (d # s))"

text \<open>
  \<^verbatim>\<open>parseFuncExpression\<close>, giving the function \<^verbatim>\<open>fn\<close> as it leaves it. In the first
  branch \<^verbatim>\<open>table, err := ...\<close> declares a new \<^verbatim>\<open>err\<close>: the one that \<^verbatim>\<open>FindPath\<close>
  assigns is this inner variable, which nothing reads, and the function returns the
  outer one, still \<^verbatim>\<open>nil\<close>. \<^verbatim>\<open>paths[0]\<close> is an index into the list that
  \<^verbatim>\<open>FindPath\<close> returned.
\<close>

definition parseFuncExpression ::
  "Compiler \<Rightarrow> Select \<Rightarrow> Function \<Rightarrow> string \<Rightarrow> error + Function" where
  "parseFuncExpression co sel fn fnExp =
     (if fnExp \<noteq> [] \<and> hd fnExp = CHR ''_''
      then
        (case splitUU [] (tl fnExp) of
           [] \<Rightarrow> Inl (Panic ''index out of range'')
         | part0 # parts \<Rightarrow>
             (case co_Find co (co_DBSchema co) part0 of
                Inl e \<Rightarrow> Inl e
              | Inr table \<Rightarrow>
                  (case (case parts of
                           [] \<Rightarrow> Inr (t_PrimaryCol table)
                         | part1 # _ \<Rightarrow> GetColumn table part1) of
                     Inl e \<Rightarrow> Inl e
                   | Inr column \<Rightarrow>
                       let fnSel = zeroSelect\<lparr>sel_ParentID := sel_ID sel, sel_Table := t_Name table\<rparr>;
                           paths = fst (co_FindPath co (t_Name table) (sel_Table sel));
                           fnSel1 = co_addCol co fnSel \<lparr> col_Col = column, col_FieldName = [] \<rparr> True
                       in (case paths of
                             [] \<Rightarrow> Inl (Panic ''index out of range'')
                           | p # ps \<Rightarrow>
                               Inr (fn\<lparr>fn_Sel :=
                                 Some (fnSel1\<lparr>sel_Rel := p, sel_Joins := sel_Joins fnSel1 @ ps\<rparr>)\<rparr>)))))
      else
        (case GetColumn (sel_Ti sel) fnExp of
           Inl e \<Rightarrow> Inl e
         | Inr c \<Rightarrow> Inr (fn\<lparr>fn_Col := c\<rparr>)))"

section \<open>The select compiler\<close>

text \<open>
  Modelled from the spec: \<^verbatim>\<open>compileColumns\<close> is outside the three files. It fills
  the projection of the select and pushes values on the work stack; what it
  computes is the component \<open>co_columns\<close>.
\<close>

definition compileColumns ::
  "Compiler \<Rightarrow> int list \<Rightarrow> Operation \<Rightarrow> QCode \<Rightarrow> Select \<Rightarrow> Field \<Rightarrow> trval
     \<Rightarrow> error + (int list \<times> Select)" where
  "compileColumns co st op qc sel field tr =
     (case co_columns co op qc sel field tr of
        Inl e \<Rightarrow> Inl e
      | Inr r \<Rightarrow>
          Inr (fold Push (cr_Push r) st,
               sel\<lparr>sel_Cols := cr_Cols r, sel_BCols := cr_BCols r,
                   sel_Typename := cr_Typename r, sel_GroupCols := cr_GroupCols r\<rparr>))"

text \<open>
  Modelled from the spec: \<^verbatim>\<open>orderByIDCol\<close> is outside the three files. It appends
  the tie-breaker column to \<^verbatim>\<open>OrderBy\<close>, or fails; the entry it appends is the
  component \<open>co_idCol\<close>.
\<close>

definition orderByIDCol :: "Compiler \<Rightarrow> Select \<Rightarrow> error + Select" where
  "orderByIDCol co sel =
     (case co_idCol co sel of
        Inl e \<Rightarrow> Inl e
      | Inr ob \<Rightarrow> Inr (sel\<lparr>sel_OrderBy := sel_OrderBy sel @ [ob]\<rparr>))"

text \<open>
  \<open>compileSelect\<close> is the body of the loop of \<^verbatim>\<open>compileQuery\<close> from the
  allocation of \<^verbatim>\<open>s1\<close> to the append to \<^verbatim>\<open>qc.Selects\<close>, for the field popped and
  the parent id decoded from the stack value. It gives the new QCode and the new
  stack.
\<close>

definition compileSelect ::
  "Compiler \<Rightarrow> Operation \<Rightarrow> string \<Rightarrow> QCode \<Rightarrow> int list \<Rightarrow> int \<Rightarrow> int \<Rightarrow> Field
     \<Rightarrow> error + (QCode \<times> int list)" where
  "compileSelect co op role qc st sid parentID0 field =
     (let parentID = (if f_ParentID field = -1 then -1 else parentID0);
          s1 = zeroSelect\<lparr>sel_ID := sid, sel_ParentID := parentID,
                 sel_FieldName := (if f_Alias field \<noteq> [] then f_Alias field else f_Name field),
                 sel_Children := []\<rparr>
      in
      case compileDirectives s1 (f_Directives field) of
        Inl e \<Rightarrow> Inl e
      | Inr s2 \<Rightarrow>
      (case addRelInfo co op qc s2 field of
        Inl e \<Rightarrow> Inl e
      | Inr (qc1, s3) \<Rightarrow>
      (let tr = co_getRole co role (f_Name field) in
       case (if tr_isSkipped tr (qc_Type qc1)
             then Inr (s3\<lparr>sel_SkipRender := SkipTypeUserNeeded\<rparr>)
             else (case tr_isBlocked tr (qc_SType qc1) (f_Name field) of
                     Some e \<Rightarrow> Inl e
                   | None \<Rightarrow> Inr s3)) of
        Inl e \<Rightarrow> Inl e
      | Inr s4 \<Rightarrow>
      (case compileArgs co (setLimit co tr qc1 s4) (f_Args field) role of
        Inl e \<Rightarrow> Inl e
      | Inr s5 \<Rightarrow>
      (case compileColumns co st op qc1 s5 field tr of
        Inl e \<Rightarrow> Inl e
      | Inr (st1, s6) \<Rightarrow>
      (let (wh, un) = addFilters qc1 (sel_Where s6) tr;
           s7 = s6\<lparr>sel_Where := wh\<rparr>;
           s8 = (if un \<and> role = ''anon'' then s7\<lparr>sel_SkipRender := SkipTypeUserNeeded\<rparr> else s7)
       in
       case (if p_Cursor (sel_Paging s8)
             then (case orderByIDCol co s8 of
                     Inl e \<Rightarrow> Inl e
                   | Inr s9 \<Rightarrow>
                       Inr (if p_Type (sel_Paging s9) \<noteq> PTOffset then addSeekPredicate s9 else s9))
             else Inr s8) of
        Inl e \<Rightarrow> Inl e
      | Inr s10 \<Rightarrow>
      (case validateSelect s10 of
         Some e \<Rightarrow> Inl e
       | None \<Rightarrow> Inr (qc1\<lparr>qc_Selects := qc_Selects qc1 @ [s10]\<rparr>, st1))))))))"

text \<open>
  The loop of \<^verbatim>\<open>compileQuery\<close>, on the QCode, the work stack and \<^verbatim>\<open>id\<close>. A stack
  value holds the field id in its lower 16 bits and the parent id above. The
  \<^verbatim>\<open>int32\<close> values are integers of HOL: the code combines them with \<^verbatim>\<open>|\<close>, \<^verbatim>\<open>&\<close>
  and \<^verbatim>\<open>>>\<close> only, which stay in 32 bits and are the same on the integers (\<^verbatim>\<open>>>\<close>
  is the arithmetic shift, \<open>drop_bit\<close>), and \<^verbatim>\<open>id\<close> never exceeds 30. The loop
  ends: a round either fails, or pops a keyword field and leaves \<^verbatim>\<open>id\<close>, or
  increments \<^verbatim>\<open>id\<close>, which stays below \<^verbatim>\<open>maxSelectors\<close>. The message of the limit
  error is \<^verbatim>\<open>maxSelectors\<close> printed by \<^verbatim>\<open>%d\<close>.
\<close>

function compileQuery_loop ::
  "Compiler \<Rightarrow> Operation \<Rightarrow> string \<Rightarrow> QCode \<Rightarrow> int list \<Rightarrow> int \<Rightarrow> error + (QCode \<times> int)" where
  "compileQuery_loop co op role qc st sid =
     (case st of
        [] \<Rightarrow> Inr (qc, sid)
      | val # st' \<Rightarrow>
          if maxSelectors \<le> sid then Inl (Error ''selector limit reached (30)'')
          else
            let fid = val AND 65535;
                parentID = (drop_bit 16 val) AND 65535
            in if \<not> (fid < int (length (op_Fields op))) then Inl (Panic ''index out of range'')
               else
                 let field = op_Fields op ! nat fid in
                 if f_Type field = FieldKeyword then compileQuery_loop co op role qc st' sid
                 else
                   (case compileSelect co op role qc st' sid parentID field of
                      Inl e \<Rightarrow> Inl e
                    | Inr (qc', st'') \<Rightarrow> compileQuery_loop co op role qc' st'' (sid + 1)))"
  by pat_completeness auto
termination
  by (relation "measures [\<lambda>(co, op, role, qc, st, sid). nat (maxSelectors - sid),
                          \<lambda>(co, op, role, qc, st, sid). length st]")
     (auto simp: maxSelectors_def)

declare compileQuery_loop.simps [simp del]

definition compileQuery :: "Compiler \<Rightarrow> QCode \<Rightarrow> Operation \<Rightarrow> string \<Rightarrow> error + QCode" where
  "compileQuery co qc op role =
     (case op_Fields op of
        [] \<Rightarrow> Inl (Error ''invalid graphql no query found'')
      | f0 # _ \<Rightarrow>
          (case (if op_Type op = OpMutate then setMutationType qc (f_Args f0) else Inr qc) of
             Inl e \<Rightarrow> Inl e
           | Inr qc1 \<Rightarrow>
               let st = fold (\<lambda>f st. if f_ParentID f = -1 then Push (f_ID f OR (- 65536)) st else st)
                          (op_Fields op) []
               in (case compileQuery_loop co op role (qc1\<lparr>qc_Selects := []\<rparr>) st 0 of
                     Inl e \<Rightarrow> Inl e
                   | Inr (qc2, sid) \<Rightarrow>
                       if sid = 0 then Inl (Error ''invalid query'') else Inr qc2)))"

definition Compile ::
  "Compiler \<Rightarrow> string \<Rightarrow> (string \<rightharpoonup> string) \<Rightarrow> string \<Rightarrow> error + QCode" where
  "Compile co query vars role =
     (let qc = \<lparr> qc_Type = QTUnknown, qc_SType = QTQuery, qc_ActionVar = [], qc_Selects = [],
                 qc_Vars = vars, qc_Roots = [], qc_Remotes = 0 \<rparr>
      in case co_Parse co query of
           Inl e \<Rightarrow> Inl e
         | Inr op \<Rightarrow>
             (case (case op_Type op of
                      OpQuery \<Rightarrow> Inr QTQuery
                    | OpSub \<Rightarrow> Inr QTSubscription
                    | OpMutate \<Rightarrow> Inr QTMutation
                    | OpOther t \<Rightarrow> Inl (Error (''invalid operation: '' @ t))) of
                Inl e \<Rightarrow> Inl e
              | Inr ty \<Rightarrow>
                  (case compileQuery co (qc\<lparr>qc_Type := ty\<rparr>) op role of
                     Inl e \<Rightarrow> Inl e
                   | Inr qc1 \<Rightarrow>
                       if qc_Type qc1 = QTMutation then co_compileMutation co qc1 op role
                       else Inr qc1)))"


section \<open>A graph that records its edges\<close>




section \<open>An example catalogue\<close>

text \<open>
  Two tables: \<open>users\<close>, and \<open>posts\<close> with a foreign key to the unique column
  \<open>users.id\<close>, one to its own \<open>id\<close> and one to the column \<open>users.name\<close>, which
  is not unique.
\<close>

definition ex_col :: "string \<Rightarrow> int \<Rightarrow> string \<Rightarrow> bool \<Rightarrow> string \<Rightarrow> string \<Rightarrow> DBColumn" where
  "ex_col tbl i name uniq ftable fcol =
     \<lparr> c_ID = i, c_Schema = ''public'', c_Table = tbl, c_Name = name, c_Type = ''text'',
       c_Array = False, c_UniqueKey = uniq,
       c_FKeySchema = [], c_FKeyTable = ftable, c_FKeyCol = fcol \<rparr>"

definition ex_users :: DBTable where
  "ex_users = \<lparr> t_Schema = ''public'', t_Name = ''users'', t_Type = ''table'',
     t_Columns = [ex_col ''users'' 0 ''id'' True [] [], ex_col ''users'' 1 ''name'' False [] []],
     t_PrimaryCol = ex_col ''users'' 0 ''id'' True [] [],
     t_SecondaryCol = zeroDBColumn, t_FullText = [], t_Blocked = False,
     t_colMap = [''id'' \<mapsto> 0, ''name'' \<mapsto> 1] \<rparr>"

definition ex_posts :: DBTable where
  "ex_posts = \<lparr> t_Schema = ''public'', t_Name = ''posts'', t_Type = ''table'',
     t_Columns =
       [ex_col ''posts'' 0 ''id'' True [] [],
        ex_col ''posts'' 1 ''user_id'' False ''users'' ''id'',
        ex_col ''posts'' 2 ''reply_to'' False ''posts'' ''id'',
        ex_col ''posts'' 3 ''editor'' False ''users'' ''name'',
        ex_col ''posts'' 4 ''title'' False [] []],
     t_PrimaryCol = ex_col ''posts'' 0 ''id'' True [] [],
     t_SecondaryCol = zeroDBColumn, t_FullText = [], t_Blocked = False,
     t_colMap = [''id'' \<mapsto> 0, ''user_id'' \<mapsto> 1, ''reply_to'' \<mapsto> 2, ''editor'' \<mapsto> 3,
                 ''title'' \<mapsto> 4] \<rparr>"


section \<open>An example compiler\<close>

text \<open>
  The relationship from \<open>posts\<close> to \<open>users\<close>, as \<^verbatim>\<open>PathToRel\<close> gives it.
\<close>

definition ex_rel :: DBRel where
  "ex_rel = \<lparr> rel_Type = RelOneToOne,
     rel_Through = \<lparr> th_Ti = zeroDBTable, th_ColL = zeroDBColumn, th_ColR = zeroDBColumn \<rparr>,
     rel_Left = \<lparr> l_Ti = ex_posts, l_Col = ex_col ''posts'' 1 ''user_id'' False ''users'' ''id'' \<rparr>,
     rel_Right = \<lparr> r_VTable = [], r_Ti = ex_users, r_Col = ex_col ''users'' 0 ''id'' True [] [] \<rparr> \<rparr>"

text \<open>A policy that blocks and skips nothing, with the baseline filter \<open>fil\<close>.\<close>

definition ex_policy :: "Exp option \<Rightarrow> trval" where
  "ex_policy fil = \<lparr> tr_isSkipped = (\<lambda>qt. False), tr_isBlocked = (\<lambda>qt name. None),
     tr_limit = (\<lambda>qt. 0), tr_filter = (\<lambda>qt. (fil, False)) \<rparr>"

text \<open>The filter that the example expression builder gives for a \<^verbatim>\<open>where\<close> argument.\<close>

definition ex_where :: Exp where
  "ex_where = Exp OpGreaterThan [] [] (ex_col ''users'' 0 ''id'' True [] []) ValNum ''10''
                ValZero [] [] []"

text \<open>
  A compiler over the example catalogue: every role has the policy \<open>pol\<close>, the
  parser gives \<open>op\<close>, and the columns pass pushes the fields whose parent is the
  field compiled, tagged with the id of the select.
\<close>

definition ex_compiler :: "trval \<Rightarrow> Operation \<Rightarrow> Compiler" where
  "ex_compiler pol op = \<lparr>
     co_DBSchema = ''public'', co_DefaultLimit = 0, co_EnableInflection = False,
     co_DBType = ''postgres'',
     co_Find = (\<lambda>schema name.
        if name = ''users'' then Inr ex_users
        else if name = ''posts'' then Inr ex_posts
        else Inl (Error (''table not found: '' @ name))),
     co_FindPath = (\<lambda>child parent.
        if child = ''posts'' \<and> parent = ''users'' then ([ex_rel], None)
        else ([], Some (Error (''no relationship found: '' @ child @ '' -> '' @ parent)))),
     co_Parse = (\<lambda>query. Inr op),
     co_Singularize = (\<lambda>s. s),
     co_getRole = (\<lambda>role name. pol),
     co_compileArgObj = (\<lambda>ti arg. Inr (Some ex_where, False)),
     co_idCol = (\<lambda>sel. Inr \<lparr> ob_Col = t_PrimaryCol (sel_Ti sel), ob_Order = sel_order sel \<rparr>),
     co_columns = (\<lambda>op qc sel field tr. Inr \<lparr>
        cr_Push = map (\<lambda>g. f_ID g OR push_bit 16 (sel_ID sel))
                    (filter (\<lambda>g. f_ParentID g = f_ID field) (op_Fields op)),
        cr_Cols = [], cr_BCols = [], cr_Typename = False, cr_GroupCols = False \<rparr>),
     co_compileMutation = (\<lambda>qc op role. Inr qc),
     co_addCol = (\<lambda>sel col force. sel\<lparr>sel_BCols := sel_BCols sel @ [col]\<rparr>) \<rparr>"

definition ex_field :: "int \<Rightarrow> int \<Rightarrow> string \<Rightarrow> Arg list \<Rightarrow> Directive list \<Rightarrow> Field" where
  "ex_field i p name args dirs =
     \<lparr> f_ID = i, f_ParentID = p, f_Name = name, f_Alias = [], f_Type = FieldNone,
       f_Args = args, f_Directives = dirs \<rparr>"

text \<open>The query \<^verbatim>\<open>{ users { posts } }\<close>.\<close>

definition ex_nested :: Operation where
  "ex_nested = \<lparr> op_Type = OpQuery,
     op_Fields = [ex_field 0 (-1) ''users'' [] [], ex_field 1 0 ''posts'' [] []] \<rparr>"

text \<open>An argument \<open>name: {k1: v1, k2: v2, ...}\<close>, the keys in their textual order.\<close>

definition ex_obj_arg :: "string \<Rightarrow> (string \<times> string) list \<Rightarrow> Arg" where
  "ex_obj_arg name kvs =
     \<lparr> a_Name = name,
       a_Val = Node NodeObj [] [] None
                 (map (\<lambda>(k, v). Node NodeStr k v (Some (Node NodeObj [] [] None [])) []) kvs) \<rparr>"

text \<open>An argument \<open>name: v\<close> with a scalar or variable value.\<close>

definition ex_arg :: "string \<Rightarrow> ParserType \<Rightarrow> string \<Rightarrow> Arg" where
  "ex_arg name ty v = \<lparr> a_Name = name, a_Val = Node ty [] v None [] \<rparr>"

text \<open>A query with the single root field \<^verbatim>\<open>users\<close> and the given arguments and directives.\<close>

definition ex_root :: "OpType \<Rightarrow> Arg list \<Rightarrow> Directive list \<Rightarrow> Operation" where
  "ex_root ty args dirs = \<lparr> op_Type = ty, op_Fields = [ex_field 0 (-1) ''users'' args dirs] \<rparr>"

text \<open>A select on \<open>users\<close> at the root, before its arguments are compiled.\<close>

definition ex_sel :: Select where
  "ex_sel = zeroSelect\<lparr>sel_ParentID := -1, sel_Ti := ex_users, sel_Table := ''users''\<rparr>"

section \<open>The invariant of the select table\<close>

text \<open>
  What holds of \<^verbatim>\<open>qc.Selects\<close> at every round of the loop of \<^verbatim>\<open>compileQuery\<close>:
  the id of a select is its position, and a select that is not a root has a parent
  at an earlier position whose \<^verbatim>\<open>Children\<close> hold the select's id.
\<close>

definition selectOK :: "Select list \<Rightarrow> nat \<Rightarrow> bool" where
  "selectOK sels i \<longleftrightarrow>
     sel_ID (sels ! i) = int i \<and>
     (sel_ParentID (sels ! i) = -1 \<or>
      (0 \<le> sel_ParentID (sels ! i) \<and> sel_ParentID (sels ! i) < int i \<and>
       int i \<in> set (sel_Children (sels ! nat (sel_ParentID (sels ! i))))))"

definition selectsOK :: "Select list \<Rightarrow> bool" where
  "selectsOK sels \<longleftrightarrow> list_all (selectOK sels) [0..<length sels]"

text \<open>
  The steps on a select keep its id and its parent id.
\<close>

definition sameIDs :: "Select \<Rightarrow> Select \<Rightarrow> bool" where
  "sameIDs s s' \<longleftrightarrow> sel_ID s' = sel_ID s \<and> sel_ParentID s' = sel_ParentID s"

text \<open>
  \<^verbatim>\<open>qc.Selects\<close> after \<^verbatim>\<open>addRelInfo\<close> has linked the select \<open>cid\<close> to its parent
  \<open>pid\<close>: a root changes nothing, otherwise the id is appended to the children of
  the parent.
\<close>

definition linked :: "Select list \<Rightarrow> int \<Rightarrow> int \<Rightarrow> Select list" where
  "linked sels pid cid =
     (if pid = -1 then sels
      else sels[nat pid := (sels ! nat pid)\<lparr>sel_Children := sel_Children (sels ! nat pid) @ [cid]\<rparr>])"


section \<open>Verification: the schema graph\<close>




section \<open>Verification: evaluation of the examples\<close>

lemmas ex_defs =
  ex_compiler_def ex_policy_def ex_field_def ex_nested_def ex_users_def ex_posts_def ex_col_def
  ex_rel_def ex_where_def ex_obj_arg_def ex_arg_def ex_root_def ex_sel_def

lemmas model_defs =
  compileQuery_def compileSelect_def addRelInfo_def linkParent_def fieldKind_def bindTable_def
  setSingular_def isSingularRel_def setLimit_def compileColumns_def addFilters_def
  validateSelect_def Push_def zeroSelect_def zeroField_def zeroDBRel_def zeroDBTable_def
  zeroDBColumn_def maxSelectors_def Compile_def compileArg_def compileArgOrderBy_def
  orderByNode_def setOrderByColName_def GetColumn_def getColumn_def orderOf_def compileArgID_def
  compileArgWhere_def setFilter_def compileArgFirstLast_def compileArgLimit_def
  compileArgAfterBefore_def ParseInt32_def digitVal_def orderByIDCol_def addSeekPredicate_def
  seekRound_def seekLeaf_def addChildren_def newExpOp_def newExp_def compileDirectiveSkip_def
  compileDirectiveInclude_def quote_def argErr_def setActionVar_def parseFuncExpression_def
  compileQuery_loop.simps

section \<open>Verification: the id argument and the directives\<close>

lemma compileArgID_where:
  assumes "compileArgID sel arg = Inr sel'"
  shows "sel_Where sel' =
     Some (Exp OpEquals [] [] (t_PrimaryCol (sel_Ti sel))
            (case n_Type (a_Val arg) of NodeNum \<Rightarrow> ValNum | NodeStr \<Rightarrow> ValStr | _ \<Rightarrow> ValVar)
            (n_Val (a_Val arg)) ValZero [] [] [])"
  using assms
  by (auto simp: compileArgID_def Let_def split: if_splits ParserType.splits option.splits sum.splits)

text \<open>
  C9. When the directives of a field are a \<^verbatim>\<open>@skip\<close> or an \<^verbatim>\<open>@include\<close> and its
  arguments are an \<^verbatim>\<open>id\<close>, the directive puts its filter into \<^verbatim>\<open>Where\<close>
  (\<^verbatim>\<open>setFilter\<close>), and \<^verbatim>\<open>compileArgID\<close> then leaves in \<^verbatim>\<open>Where\<close> the leaf
  \<^verbatim>\<open>OpEquals\<close> on the primary column alone: a node with no child, whatever
  \<^verbatim>\<open>Where\<close> held before.
\<close>

theorem id_discards_directive_filter:
  assumes d: "d_Name d = ''skip'' \<or> d_Name d = ''include''"
    and ds: "compileDirectives sel [d] = Inr sel1"
    and a: "a_Name arg = ''id''"
    and args: "compileArgs co sel1 [arg] role = Inr sel2"
  shows "(\<exists>v. sel_Where sel1 =
            setFilter (sel_Where sel)
              (Some (Exp (if d_Name d = ''skip'' then OpNotEqualsTrue else OpEqualsTrue)
                       [] [] zeroDBColumn ValVar v ValZero [] [] []))) \<and>
         sel_Where sel2 =
           Some (Exp OpEquals [] [] (t_PrimaryCol (sel_Ti sel1))
                  (case n_Type (a_Val arg) of NodeNum \<Rightarrow> ValNum | NodeStr \<Rightarrow> ValStr | _ \<Rightarrow> ValVar)
                  (n_Val (a_Val arg)) ValZero [] [] [])"
proof
  show "\<exists>v. sel_Where sel1 =
            setFilter (sel_Where sel)
              (Some (Exp (if d_Name d = ''skip'' then OpNotEqualsTrue else OpEqualsTrue)
                       [] [] zeroDBColumn ValVar v ValZero [] [] []))"
    using d ds
    by (auto simp: compileDirectiveSkip_def compileDirectiveInclude_def
             split: if_splits list.splits sum.splits)
next
  from a args have "compileArgID sel1 arg = Inr sel2"
    by (simp add: compileArg_def split: sum.splits)
  then show "sel_Where sel2 =
           Some (Exp OpEquals [] [] (t_PrimaryCol (sel_Ti sel1))
                  (case n_Type (a_Val arg) of NodeNum \<Rightarrow> ValNum | NodeStr \<Rightarrow> ValStr | _ \<Rightarrow> ValVar)
                  (n_Val (a_Val arg)) ValZero [] [] [])"
    by (rule compileArgID_where)
qed

theorem id_discards_directive_filter_witness:
  "compileDirectives ex_sel [\<lparr> d_Name = ''skip'', d_Args = [ex_arg ''if'' NodeVar ''v''] \<rparr>] =
     Inr (ex_sel\<lparr>sel_Where :=
            Some (Exp OpNotEqualsTrue [] [] zeroDBColumn ValVar ''v'' ValZero [] [] [])\<rparr>) \<and>
   compileArgs (ex_compiler (ex_policy None) ex_nested)
     (ex_sel\<lparr>sel_Where :=
            Some (Exp OpNotEqualsTrue [] [] zeroDBColumn ValVar ''v'' ValZero [] [] [])\<rparr>)
     [ex_arg ''id'' NodeNum ''5''] ''user'' =
     Inr (ex_sel\<lparr>sel_Where :=
            Some (Exp OpEquals [] [] (t_PrimaryCol ex_users) ValNum ''5'' ValZero [] [] []),
          sel_Singular := True\<rparr>) \<and>
   sel_Where (ex_sel\<lparr>sel_Where :=
            Some (Exp OpEquals [] [] (t_PrimaryCol ex_users) ValNum ''5'' ValZero [] [] []),
          sel_Singular := True\<rparr>) =
     Some (Exp OpEquals [] [] (t_PrimaryCol ex_users) ValNum ''5'' ValZero [] [] []) \<and>
   (\<exists>qc. Compile (ex_compiler (ex_policy None)
               (ex_root OpQuery [ex_arg ''id'' NodeNum ''5'']
                  [\<lparr> d_Name = ''skip'', d_Args = [ex_arg ''if'' NodeVar ''v''] \<rparr>]))
             [] Map.empty ''user'' = Inr qc \<and>
         map sel_Where (qc_Selects qc) =
           [Some (Exp OpEquals [] [] (t_PrimaryCol ex_users) ValNum ''5'' ValZero [] [] [])])"
proof -
  let ?d = "\<lparr> d_Name = ''skip'', d_Args = [ex_arg ''if'' NodeVar ''v''] \<rparr>"
  let ?s1 = "ex_sel\<lparr>sel_Where :=
            Some (Exp OpNotEqualsTrue [] [] zeroDBColumn ValVar ''v'' ValZero [] [] [])\<rparr>"
  let ?s2 = "ex_sel\<lparr>sel_Where :=
            Some (Exp OpEquals [] [] (t_PrimaryCol ex_users) ValNum ''5'' ValZero [] [] []),
          sel_Singular := True\<rparr>"
  have h1: "compileDirectives ex_sel [?d] = Inr ?s1"
    by (simp add: ex_defs model_defs)
  have h2: "compileArgs (ex_compiler (ex_policy None) ex_nested) ?s1
              [ex_arg ''id'' NodeNum ''5''] ''user'' = Inr ?s2"
    by (simp add: ex_defs model_defs Let_def)
  have d: "d_Name ?d = ''skip'' \<or> d_Name ?d = ''include''" by simp
  have a: "a_Name (ex_arg ''id'' NodeNum ''5'') = ''id''" by (simp add: ex_arg_def)
  from id_discards_directive_filter[OF d h1 a h2]
  have "sel_Where ?s2 =
     Some (Exp OpEquals [] [] (t_PrimaryCol ex_users) ValNum ''5'' ValZero [] [] [])"
    by (simp add: ex_defs zeroSelect_def)
  moreover have "\<exists>qc. Compile (ex_compiler (ex_policy None)
               (ex_root OpQuery [ex_arg ''id'' NodeNum ''5''] [?d]))
             [] Map.empty ''user'' = Inr qc \<and>
         map sel_Where (qc_Selects qc) =
           [Some (Exp OpEquals [] [] (t_PrimaryCol ex_users) ValNum ''5'' ValZero [] [] [])]"
    by (simp add: ex_defs model_defs Let_def)
  ultimately show ?thesis using h1 h2 by blast
qed

section \<open>Verification: aggregates over another table\<close>

text \<open>
  C10. For an aggregate \<^verbatim>\<open>fn_table__column\<close> whose table and column exist, when
  \<^verbatim>\<open>FindPath\<close> gives no path between that table and the table of the select (with
  or without an error) \<^verbatim>\<open>parseFuncExpression\<close> does not return an error: it panics
  at \<^verbatim>\<open>paths[0]\<close>.
\<close>

theorem parseFuncExpression_no_path_panics:
  assumes "fnExp = CHR ''_'' # rest"
    and "splitUU [] rest = part0 # parts"
    and "co_Find co (co_DBSchema co) part0 = Inr table"
    and "(case parts of [] \<Rightarrow> Inr (t_PrimaryCol table) | part1 # _ \<Rightarrow> GetColumn table part1)
           = Inr column"
    and "fst (co_FindPath co (t_Name table) (sel_Table sel)) = []"
  shows "parseFuncExpression co sel fn fnExp = Inl (Panic ''index out of range'')"
  using assms by (simp add: parseFuncExpression_def Let_def)

theorem parseFuncExpression_no_path_panics_witness:
  "co_FindPath (ex_compiler (ex_policy None) ex_nested) ''users'' ''posts'' =
     ([], Some (Error ''no relationship found: users -> posts'')) \<and>
   parseFuncExpression (ex_compiler (ex_policy None) ex_nested)
     (ex_sel\<lparr>sel_Ti := ex_posts, sel_Table := ''posts''\<rparr>)
     \<lparr> fn_Name = ''count'', fn_Sel = None, fn_Col = zeroDBColumn,
       fn_FieldName = ''count_users__name'', fn_skip = False \<rparr>
     ''_users__name'' = Inl (Panic ''index out of range'')"
proof -
  let ?co = "ex_compiler (ex_policy None) ex_nested"
  let ?sel = "ex_sel\<lparr>sel_Ti := ex_posts, sel_Table := ''posts''\<rparr>"
  have p: "co_FindPath ?co ''users'' ''posts'' =
     ([], Some (Error ''no relationship found: users -> posts''))"
    by (simp add: ex_compiler_def)
  have 1: "''_users__name'' = CHR ''_'' # ''users__name''" by simp
  have 2: "splitUU [] ''users__name'' = ''users'' # [''name'']" by simp
  have 3: "co_Find ?co (co_DBSchema ?co) ''users'' = Inr ex_users"
    by (simp add: ex_compiler_def)
  have 4: "(case [''name''] of [] \<Rightarrow> Inr (t_PrimaryCol ex_users)
            | part1 # _ \<Rightarrow> GetColumn ex_users part1) = Inr (ex_col ''users'' 1 ''name'' False [] [])"
    by (simp add: GetColumn_def getColumn_def ex_users_def)
  have 5: "fst (co_FindPath ?co (t_Name ex_users) (sel_Table ?sel)) = []"
    by (simp add: ex_compiler_def ex_users_def ex_sel_def)
  from parseFuncExpression_no_path_panics[OF 1 2 3 4 5] p show ?thesis by blast
qed

section \<open>Verification: the order_by argument\<close>

lemma fold_Push: "fold Push xs st = rev xs @ st"
  by (induction xs arbitrary: st) (simp_all add: Push_def)

lemma orderByLoop_obs:
  "orderByLoop ti cm st acc = Inr res \<Longrightarrow>
   \<exists>obs. res = acc @ obs \<and> map Inr obs = map (orderByNode ti cm) st"
proof (induction st arbitrary: acc)
  case Nil
  then show ?case by simp
next
  case (Cons node st)
  from Cons.prems obtain ob where ob: "orderByNode ti cm node = Inr ob"
    and rest: "orderByLoop ti cm st (acc @ [ob]) = Inr res"
    by (auto split: sum.splits)
  from Cons.IH[OF rest] obtain obs where
    "res = (acc @ [ob]) @ obs" "map Inr obs = map (orderByNode ti cm) st"
    by blast
  with ob show ?case
    by (intro exI[where x = "ob # obs"]) simp
qed

text \<open>
  C4, as amended. The entries that an \<^verbatim>\<open>order_by\<close> argument appends to
  \<^verbatim>\<open>Select.OrderBy\<close> are the ones of its column/direction pairs in their textual
  order: the stack reverses the pairs and the last loop of \<^verbatim>\<open>compileArgOrderBy\<close>
  reverses them again.
\<close>

theorem compileArgOrderBy_textual_order:
  assumes "compileArgOrderBy sel arg = Inr sel'"
  shows "\<exists>obs. sel_OrderBy sel' = sel_OrderBy sel @ obs \<and>
           map Inr obs =
             map (orderByNode (sel_Ti sel) (map (\<lambda>ob. c_Name (ob_Col ob)) (sel_OrderBy sel)))
               (n_Children (a_Val arg))"
proof -
  let ?cm = "map (\<lambda>ob. c_Name (ob_Col ob)) (sel_OrderBy sel)"
  from assms obtain obList where
    loop: "orderByLoop (sel_Ti sel) ?cm (rev (n_Children (a_Val arg))) [] = Inr obList"
    and sel': "sel' = sel\<lparr>sel_OrderBy := sel_OrderBy sel @ rev obList\<rparr>"
    by (auto simp: compileArgOrderBy_def Let_def fold_Push split: if_splits sum.splits)
  from orderByLoop_obs[OF loop] have
    "map Inr obList = map (orderByNode (sel_Ti sel) ?cm) (rev (n_Children (a_Val arg)))"
    by auto
  then have "rev (map Inr obList) =
      rev (map (orderByNode (sel_Ti sel) ?cm) (rev (n_Children (a_Val arg))))"
    by simp
  then have "map Inr (rev obList) = map (orderByNode (sel_Ti sel) ?cm) (n_Children (a_Val arg))"
    by (simp add: rev_map)
  with sel' show ?thesis
    by (intro exI[where x = "rev obList"]) simp
qed

theorem compileArgOrderBy_textual_order_witness:
  "compileArgOrderBy ex_sel (ex_obj_arg ''order_by'' [(''name'', ''desc''), (''id'', ''asc'')]) =
     Inr (ex_sel\<lparr>sel_OrderBy :=
            [\<lparr> ob_Col = ex_col ''users'' 1 ''name'' False [] [], ob_Order = OrderDesc \<rparr>,
             \<lparr> ob_Col = ex_col ''users'' 0 ''id'' True [] [], ob_Order = OrderAsc \<rparr>]\<rparr>) \<and>
   (\<exists>obs. sel_OrderBy (ex_sel\<lparr>sel_OrderBy :=
            [\<lparr> ob_Col = ex_col ''users'' 1 ''name'' False [] [], ob_Order = OrderDesc \<rparr>,
             \<lparr> ob_Col = ex_col ''users'' 0 ''id'' True [] [], ob_Order = OrderAsc \<rparr>]\<rparr>) =
             sel_OrderBy ex_sel @ obs \<and>
           map Inr obs =
             map (orderByNode (sel_Ti ex_sel) (map (\<lambda>ob. c_Name (ob_Col ob)) (sel_OrderBy ex_sel)))
               (n_Children (a_Val (ex_obj_arg ''order_by'' [(''name'', ''desc''), (''id'', ''asc'')]))))"
proof -
  have h: "compileArgOrderBy ex_sel
             (ex_obj_arg ''order_by'' [(''name'', ''desc''), (''id'', ''asc'')]) =
     Inr (ex_sel\<lparr>sel_OrderBy :=
            [\<lparr> ob_Col = ex_col ''users'' 1 ''name'' False [] [], ob_Order = OrderDesc \<rparr>,
             \<lparr> ob_Col = ex_col ''users'' 0 ''id'' True [] [], ob_Order = OrderAsc \<rparr>]\<rparr>)"
    by (simp add: ex_defs model_defs Let_def)
  from compileArgOrderBy_textual_order[OF h] h show ?thesis by blast
qed

text \<open>
  C4, as stated, fails: for \<^verbatim>\<open>{ users(order_by: {id: asc, name: desc}) }\<close> the
  compiled select is ordered by \<open>id\<close> first and \<open>name\<close> second, not in the reverse
  of the textual order.
\<close>

theorem order_by_not_reversed:
  "\<exists>qc. Compile (ex_compiler (ex_policy None)
              (ex_root OpQuery [ex_obj_arg ''order_by'' [(''id'', ''asc''), (''name'', ''desc'')]] []))
            [] Map.empty ''user'' = Inr qc \<and>
        map (\<lambda>s. map (\<lambda>ob. (c_Name (ob_Col ob), ob_Order ob)) (sel_OrderBy s)) (qc_Selects qc) =
          [[(''id'', OrderAsc), (''name'', OrderDesc)]] \<and>
        map (\<lambda>s. map (\<lambda>ob. (c_Name (ob_Col ob), ob_Order ob)) (sel_OrderBy s)) (qc_Selects qc) \<noteq>
          [rev [(''id'', OrderAsc), (''name'', OrderDesc)]]"
  by (simp add: ex_defs model_defs Let_def)

section \<open>Verification: a column named twice in one order_by\<close>

text \<open>
  C5. \<^verbatim>\<open>{ users(order_by: {name: asc, name: desc}) }\<close> compiles: no error is
  returned, and the select is ordered by \<open>name\<close> twice. The map \<^verbatim>\<open>cm\<close> that the
  duplicate test reads is \<^verbatim>\<open>nil\<close> here and is never extended in the loop.
\<close>

theorem order_by_duplicate_accepted:
  "\<exists>qc. Compile (ex_compiler (ex_policy None)
              (ex_root OpQuery [ex_obj_arg ''order_by'' [(''name'', ''asc''), (''name'', ''desc'')]] []))
            [] Map.empty ''user'' = Inr qc \<and>
        map (\<lambda>s. map (\<lambda>ob. (c_Name (ob_Col ob), ob_Order ob)) (sel_OrderBy s)) (qc_Selects qc) =
          [[(''name'', OrderAsc), (''name'', OrderDesc)]]"
  by (simp add: ex_defs model_defs Let_def)

section \<open>Verification: the seek predicate\<close>

text \<open>
  C3. \<^verbatim>\<open>{ users(first: 10, after: $cursor, order_by: {name: desc_nulls_last}) }\<close>:
  the select is ordered by \<open>name\<close> descending (nulls last) and then by the
  tie-breaker \<open>id\<close>, and its \<^verbatim>\<open>Where\<close> is the disjunction of the is-null leaf, a
  leaf on \<open>name\<close> and a conjunction. The two comparisons on \<open>name\<close>, a descending
  column, are \<^verbatim>\<open>OpGreaterThan\<close> and \<^verbatim>\<open>OpEquals\<close>: only \<^verbatim>\<open>OrderDesc\<close> itself gives
  \<^verbatim>\<open>OpLesserThan\<close>.
\<close>

theorem seek_desc_nulls_last_greater_than:
  "\<exists>qc. Compile (ex_compiler (ex_policy None)
              (ex_root OpQuery
                 [ex_arg ''first'' NodeNum ''10'', ex_arg ''after'' NodeVar ''cursor'',
                  ex_obj_arg ''order_by'' [(''name'', ''desc_nulls_last'')]] []))
            [] Map.empty ''user'' = Inr qc \<and>
        map (\<lambda>s. (p_Cursor (sel_Paging s), p_Type (sel_Paging s))) (qc_Selects qc) =
          [(True, PTForward)] \<and>
        map (\<lambda>s. map (\<lambda>ob. (c_Name (ob_Col ob), ob_Order ob)) (sel_OrderBy s)) (qc_Selects qc) =
          [[(''name'', OrderDescNullsLast), (''id'', OrderAsc)]] \<and>
        map sel_Where (qc_Selects qc) =
          [Some (Exp OpOr [] [] zeroDBColumn ValZero [] ValZero []
             [Some (Exp OpIsNull ''__cur'' [] (ex_col ''users'' 1 ''name'' False [] []) ValRef ''true''
                      ValZero [] [] []),
              Some (Exp OpGreaterThan ''__cur'' [] (ex_col ''users'' 1 ''name'' False [] []) ValRef
                      ''name'' ValZero [] [] []),
              Some (Exp OpAnd [] [] zeroDBColumn ValZero [] ValZero []
                 [Some (Exp OpEquals ''__cur'' [] (ex_col ''users'' 1 ''name'' False [] []) ValRef
                          ''name'' ValZero [] [] []),
                  Some (Exp OpGreaterThan ''__cur'' [] (ex_col ''users'' 0 ''id'' True [] []) ValRef
                          ''id'' ValZero [] [] [])] [])] [])]"
  by (simp add: ex_defs model_defs Let_def)

section \<open>Verification: what a round of the loop changes\<close>

lemma sameIDs_refl: "sameIDs s s"
  by (simp add: sameIDs_def)

lemma sameIDs_trans: "sameIDs a b \<Longrightarrow> sameIDs b c \<Longrightarrow> sameIDs a c"
  by (simp add: sameIDs_def)

lemma compileDirectives_ids: "compileDirectives sel ds = Inr sel' \<Longrightarrow> sameIDs sel sel'"
proof (induction ds arbitrary: sel)
  case Nil
  then show ?case by (simp add: sameIDs_def)
next
  case (Cons d ds)
  from Cons.prems obtain s1 where
    s1: "(if d_Name d = ''skip'' then compileDirectiveSkip sel d
            else if d_Name d = ''include'' then compileDirectiveInclude sel d
            else if d_Name d = ''not_related'' then compileDirectiveNotRelated sel d
            else if d_Name d = ''through'' then compileDirectiveThrough sel d
            else if d_Name d = ''object'' then Inr (sel\<lparr>sel_Singular := True\<rparr>)
            else Inr sel) = Inr s1"
    and rest: "compileDirectives s1 ds = Inr sel'"
    by (auto split: sum.splits)
  from s1 have "sameIDs sel s1"
    by (auto simp: sameIDs_def compileDirectiveSkip_def compileDirectiveInclude_def
          compileDirectiveNotRelated_def compileDirectiveThrough_def
          split: if_splits list.splits)
  with Cons.IH[OF rest] show ?case by (rule sameIDs_trans[rotated])
qed

lemma distinctOnCol_ids: "distinctOnCol co sel name = Inr sel' \<Longrightarrow> sameIDs sel sel'"
  by (auto simp: distinctOnCol_def sameIDs_def split: sum.splits if_splits)

lemma distinctOnLoop_ids: "distinctOnLoop co sel cns = Inr sel' \<Longrightarrow> sameIDs sel sel'"
proof (induction cns arbitrary: sel)
  case Nil
  then show ?case by (simp add: sameIDs_def)
next
  case (Cons cn cns)
  from Cons.prems obtain s1 where s1: "distinctOnCol co sel (n_Val cn) = Inr s1"
    and rest: "distinctOnLoop co s1 cns = Inr sel'"
    by (auto split: sum.splits)
  from distinctOnCol_ids[OF s1] Cons.IH[OF rest] show ?case by (rule sameIDs_trans)
qed

lemma compileArgLimit_ids: "compileArgLimit co sel arg = Inr sel' \<Longrightarrow> sameIDs sel sel'"
  by (auto simp: compileArgLimit_def sameIDs_def Let_def split: if_splits option.splits)

lemma compileArg_ids: "compileArg co sel arg role = Inr sel' \<Longrightarrow> sameIDs sel sel'"
proof -
  assume h: "compileArg co sel arg role = Inr sel'"
  have id: "compileArgID sel arg = Inr sel' \<Longrightarrow> sameIDs sel sel'"
    by (auto simp: compileArgID_def sameIDs_def Let_def
          split: if_splits sum.splits option.splits ParserType.splits)
  have search: "compileArgSearch co sel arg = Inr sel' \<Longrightarrow> sameIDs sel sel'"
    by (auto simp: compileArgSearch_def sameIDs_def addArg_def Let_def split: if_splits)
  have wh: "compileArgWhere co (sel_Ti sel) sel arg role = Inr sel' \<Longrightarrow> sameIDs sel sel'"
    by (auto simp: compileArgWhere_def sameIDs_def Let_def split: if_splits sum.splits prod.splits)
  have ob: "compileArgOrderBy sel arg = Inr sel' \<Longrightarrow> sameIDs sel sel'"
    by (auto simp: compileArgOrderBy_def sameIDs_def Let_def split: if_splits sum.splits)
  have dist: "compileArgDistinctOn co sel arg = Inr sel' \<Longrightarrow> sameIDs sel sel'"
    by (auto simp: compileArgDistinctOn_def Let_def sameIDs_refl
          split: if_splits sum.splits
          dest: distinctOnCol_ids distinctOnLoop_ids sameIDs_trans)
  have off: "compileArgOffset co sel arg = Inr sel' \<Longrightarrow> sameIDs sel sel'"
    by (auto simp: compileArgOffset_def sameIDs_def Let_def split: if_splits option.splits)
  have fl: "\<And>ord. compileArgFirstLast co sel arg ord = Inr sel' \<Longrightarrow> sameIDs sel sel'"
    by (auto simp: compileArgFirstLast_def Let_def sameIDs_def
          split: if_splits sum.splits dest!: compileArgLimit_ids)
  have ab: "\<And>pt. compileArgAfterBefore sel arg pt = Inr sel' \<Longrightarrow> sameIDs sel sel'"
    by (auto simp: compileArgAfterBefore_def Let_def sameIDs_def split: if_splits)
  have find: "compileArgFind sel arg = Inr sel' \<Longrightarrow> sameIDs sel sel'"
    by (auto simp: compileArgFind_def addArg_def sameIDs_def split: if_splits)
  from h show ?thesis
    unfolding compileArg_def Let_def
    by (auto split: if_splits
          intro: id search wh ob dist off fl ab find compileArgLimit_ids sameIDs_refl)
qed

lemma compileArgs_ids: "compileArgs co sel args role = Inr sel' \<Longrightarrow> sameIDs sel sel'"
proof (induction args arbitrary: sel)
  case Nil
  then show ?case by (simp add: sameIDs_def)
next
  case (Cons arg args)
  from Cons.prems obtain s1 where s1: "compileArg co sel arg role = Inr s1"
    and rest: "compileArgs co s1 args role = Inr sel'"
    by (auto split: sum.splits)
  from compileArg_ids[OF s1] Cons.IH[OF rest] show ?case by (rule sameIDs_trans)
qed

lemma setLimit_ids: "sameIDs sel (setLimit co tr qc sel)"
  by (simp add: setLimit_def sameIDs_def Let_def)

lemma setSingular_ids: "sameIDs sel (setSingular co name sel)"
  by (simp add: setSingular_def sameIDs_def Let_def)

lemma compileColumns_ids:
  "compileColumns co st op qc sel field tr = Inr (st', sel') \<Longrightarrow> sameIDs sel sel'"
  by (auto simp: compileColumns_def sameIDs_def split: sum.splits)

lemma orderByIDCol_ids: "orderByIDCol co sel = Inr sel' \<Longrightarrow> sameIDs sel sel'"
  by (auto simp: orderByIDCol_def sameIDs_def split: sum.splits)

lemma addSeekPredicate_ids: "sameIDs sel (addSeekPredicate sel)"
  by (simp add: addSeekPredicate_def sameIDs_def Let_def)

text \<open>
  What \<^verbatim>\<open>addRelInfo\<close> changes in the QCode: the kinds stay, and \<^verbatim>\<open>qc.Selects\<close>
  is untouched for a root and otherwise gets the id appended to the children of the
  parent, which is at a position inside \<^verbatim>\<open>qc.Selects\<close>.
\<close>

lemma linkParent_Inr:
  assumes "linkParent op qc sel field = Inr (qc1, psel, parentF)"
  shows "qc_Type qc1 = qc_Type qc \<and> qc_SType qc1 = qc_SType qc \<and>
         qc_Selects qc1 = linked (qc_Selects qc) (sel_ParentID sel) (sel_ID sel) \<and>
         (sel_ParentID sel = -1 \<or>
          (0 \<le> sel_ParentID sel \<and> sel_ParentID sel < int (length (qc_Selects qc))))"
  using assms
  by (auto simp: linkParent_def linked_def Let_def split: if_splits)

lemma fieldKind_ids:
  "fieldKind op sel field psel parentF = Inr (sel1, childF, parentF1) \<Longrightarrow> sameIDs sel sel1"
  by (auto simp: fieldKind_def sameIDs_def split: FieldType.splits if_splits option.splits)

lemma bindTable_Inr:
  assumes "bindTable co qc sel field childF parentF = Inr (qc', sel')"
  shows "qc_Type qc' = qc_Type qc \<and> qc_SType qc' = qc_SType qc \<and>
         qc_Selects qc' = qc_Selects qc \<and> sameIDs sel sel'"
proof -
  have s: "\<And>x. sel_ID (setSingular co (f_Name field) x) = sel_ID x \<and>
                sel_ParentID (setSingular co (f_Name field) x) = sel_ParentID x"
    using setSingular_ids by (simp add: sameIDs_def)
  from assms show ?thesis
    unfolding bindTable_def Let_def sameIDs_def
    by (auto simp: s split: if_splits sum.splits prod.splits list.splits option.splits)
qed

lemma addRelInfo_Inr:
  assumes "addRelInfo co op qc sel field = Inr (qc', sel')"
  shows "qc_Type qc' = qc_Type qc \<and> qc_SType qc' = qc_SType qc \<and>
         qc_Selects qc' = linked (qc_Selects qc) (sel_ParentID sel) (sel_ID sel) \<and>
         (sel_ParentID sel = -1 \<or>
          (0 \<le> sel_ParentID sel \<and> sel_ParentID sel < int (length (qc_Selects qc)))) \<and>
         sameIDs sel sel'"
proof -
  from assms obtain qc1 psel parentF sel1 childF parentF1 where
    l: "linkParent op qc sel field = Inr (qc1, psel, parentF)"
    and k: "fieldKind op sel field psel parentF = Inr (sel1, childF, parentF1)"
    and b: "bindTable co qc1 sel1 field childF parentF1 = Inr (qc', sel')"
    by (auto simp: addRelInfo_def split: sum.splits prod.splits)
  from linkParent_Inr[OF l] fieldKind_ids[OF k] bindTable_Inr[OF b]
  show ?thesis by (auto simp: sameIDs_def)
qed

text \<open>One round of the loop that allocates a select.\<close>

lemma compileSelect_Inr:
  assumes "compileSelect co op role qc st sid parentID0 field = Inr (qc', st')"
  defines "pid \<equiv> (if f_ParentID field = -1 then -1 else parentID0)"
  shows "\<exists>s. qc_Selects qc' = linked (qc_Selects qc) pid sid @ [s] \<and>
             sel_ID s = sid \<and> sel_ParentID s = pid \<and>
             (pid = -1 \<or> (0 \<le> pid \<and> pid < int (length (qc_Selects qc)))) \<and>
             qc_Type qc' = qc_Type qc \<and> qc_SType qc' = qc_SType qc"
proof -
  have lim: "\<And>tr q x. sel_ID (setLimit co tr q x) = sel_ID x \<and>
                sel_ParentID (setLimit co tr q x) = sel_ParentID x"
    using setLimit_ids by (simp add: sameIDs_def)
  have seek: "\<And>x. sel_ID (addSeekPredicate x) = sel_ID x \<and>
                sel_ParentID (addSeekPredicate x) = sel_ParentID x"
    using addSeekPredicate_ids by (simp add: sameIDs_def)
  from assms(1) show ?thesis
    unfolding compileSelect_def Let_def pid_def[symmetric]
    by (auto split: sum.splits prod.splits if_splits option.splits
          dest!: compileDirectives_ids addRelInfo_Inr compileArgs_ids compileColumns_ids
                 orderByIDCol_ids
          simp: sameIDs_def lim seek)
qed

section \<open>Verification: the invariant of the loop\<close>

lemma linked_length: "length (linked sels pid cid) = length sels"
  by (simp add: linked_def)

lemma linked_nth:
  "j < length sels \<Longrightarrow>
   sel_ID (linked sels pid cid ! j) = sel_ID (sels ! j) \<and>
   sel_ParentID (linked sels pid cid ! j) = sel_ParentID (sels ! j) \<and>
   set (sel_Children (sels ! j)) \<subseteq> set (sel_Children (linked sels pid cid ! j))"
  by (cases "j = nat pid") (auto simp: linked_def)

lemma linked_child:
  "0 \<le> pid \<Longrightarrow> pid < int (length sels) \<Longrightarrow>
   cid \<in> set (sel_Children (linked sels pid cid ! nat pid))"
  by (auto simp: linked_def)

lemma selectsOK_step:
  assumes ok: "selectsOK sels" and len: "length sels = nat sid" and sid: "0 \<le> sid"
    and s: "sel_ID s = sid" "sel_ParentID s = pid"
    and pid: "pid = -1 \<or> (0 \<le> pid \<and> pid < int (length sels))"
  shows "selectsOK (linked sels pid sid @ [s])"
proof -
  let ?l = "linked sels pid sid"
  have old: "selectOK (?l @ [s]) i" if i: "i < length sels" for i
  proof -
    from ok i have oki: "selectOK sels i"
      by (simp add: selectsOK_def list_all_iff)
    have ni: "(?l @ [s]) ! i = ?l ! i" using i by (simp add: nth_append linked_length)
    show ?thesis
    proof (cases "sel_ParentID (sels ! i) = -1")
      case True
      with oki ni linked_nth[OF i, of pid sid] show ?thesis
        by (simp add: selectOK_def)
    next
      case False
      with oki have p: "0 \<le> sel_ParentID (sels ! i)" "sel_ParentID (sels ! i) < int i"
        "int i \<in> set (sel_Children (sels ! nat (sel_ParentID (sels ! i))))"
        by (auto simp: selectOK_def)
      let ?p = "nat (sel_ParentID (sels ! i))"
      from p i have pl: "?p < length sels" by linarith
      have np: "(?l @ [s]) ! ?p = ?l ! ?p" using pl by (simp add: nth_append linked_length)
      from linked_nth[OF pl, of pid sid] p(3)
      have "int i \<in> set (sel_Children (?l ! ?p))" by blast
      with oki ni np linked_nth[OF i, of pid sid] p show ?thesis
        by (simp add: selectOK_def)
    qed
  qed
  have new: "selectOK (?l @ [s]) (length sels)"
  proof -
    have n: "(?l @ [s]) ! length sels = s"
      by (metis linked_length nth_append_length)
    show ?thesis
    proof (cases "pid = -1")
      case True
      with n s len sid show ?thesis by (simp add: selectOK_def)
    next
      case False
      with pid have p: "0 \<le> pid" "pid < int (length sels)" by auto
      then have pl: "nat pid < length sels" by linarith
      have np: "(?l @ [s]) ! nat pid = ?l ! nat pid"
        using pl by (simp add: nth_append linked_length)
      from linked_child[OF p] n np s len sid p show ?thesis
        by (simp add: selectOK_def)
    qed
  qed
  show ?thesis
    unfolding selectsOK_def list_all_iff
  proof
    fix i assume "i \<in> set [0..<length (?l @ [s])]"
    then have "i < length sels \<or> i = length sels" by (auto simp: linked_length)
    with old new show "selectOK (?l @ [s]) i" by blast
  qed
qed


lemma compileQuery_loop_inv:
  "compileQuery_loop co op role qc st sid = Inr (qc', sid') \<Longrightarrow>
   selectsOK (qc_Selects qc) \<Longrightarrow> length (qc_Selects qc) = nat sid \<Longrightarrow>
   0 \<le> sid \<Longrightarrow> sid \<le> maxSelectors \<Longrightarrow>
   selectsOK (qc_Selects qc') \<and> length (qc_Selects qc') = nat sid' \<and>
   0 \<le> sid' \<and> sid' \<le> maxSelectors \<and>
   qc_Type qc' = qc_Type qc \<and> qc_SType qc' = qc_SType qc"
proof (induction co op role qc st sid rule: compileQuery_loop.induct)
  case (1 co op role qc st sid)
  show ?case
  proof (cases st)
    case Nil
    with "1.prems" show ?thesis
      by (simp add: compileQuery_loop.simps[of co op role qc "[]" sid])
  next
    case (Cons v st')
    let ?fid = "v AND 65535"
    let ?pid0 = "drop_bit 16 v AND 65535"
    let ?field = "op_Fields op ! nat ?fid"
    from "1.prems"(1) Cons have lim: "\<not> maxSelectors \<le> sid"
      and fid: "?fid < int (length (op_Fields op))"
      by (auto simp: compileQuery_loop.simps[of co op role qc "v # st'" sid] Let_def
            split: if_splits)
    show ?thesis
    proof (cases "f_Type ?field = FieldKeyword")
      case True
      with "1.prems"(1) Cons lim fid
      have run: "compileQuery_loop co op role qc st' sid = Inr (qc', sid')"
        by (simp add: compileQuery_loop.simps[of co op role qc "v # st'" sid] Let_def)
      from "1.IH"(1)[OF Cons lim refl refl _ refl True run "1.prems"(2-5)] fid
      show ?thesis by simp
    next
      case False
      with "1.prems"(1) Cons lim fid obtain qc1 st1 where
        sel: "compileSelect co op role qc st' sid ?pid0 ?field = Inr (qc1, st1)"
        and run: "compileQuery_loop co op role qc1 st1 (sid + 1) = Inr (qc', sid')"
        by (auto simp: compileQuery_loop.simps[of co op role qc "v # st'" sid] Let_def
              split: sum.splits)
      let ?pid = "if f_ParentID ?field = -1 then -1 else ?pid0"
      from compileSelect_Inr[OF sel] obtain s where
        s: "qc_Selects qc1 = linked (qc_Selects qc) ?pid sid @ [s]"
          "sel_ID s = sid" "sel_ParentID s = ?pid"
          "?pid = -1 \<or> (0 \<le> ?pid \<and> ?pid < int (length (qc_Selects qc)))"
          "qc_Type qc1 = qc_Type qc" "qc_SType qc1 = qc_SType qc"
        by blast
      have ok1: "selectsOK (qc_Selects qc1)"
        unfolding s(1)
        by (rule selectsOK_step[OF "1.prems"(2) "1.prems"(3) "1.prems"(4) s(2) s(3) s(4)])
      have len1: "length (qc_Selects qc1) = nat (sid + 1)"
        using s(1) "1.prems"(3,4) by (simp add: linked_length nat_add_distrib)
      have b1: "0 \<le> sid + 1" "sid + 1 \<le> maxSelectors"
        using "1.prems"(4) lim by simp_all
      from "1.IH"(2)[OF Cons lim refl refl _ refl False sel refl run ok1 len1 b1] fid s(5,6)
      show ?thesis by simp
    qed
  qed
qed

lemma compileQuery_Inr:
  assumes "compileQuery co qc op role = Inr qc'"
  shows "selectsOK (qc_Selects qc') \<and> length (qc_Selects qc') \<le> 30 \<and>
         (\<exists>f0 fs qc1. op_Fields op = f0 # fs \<and>
            (if op_Type op = OpMutate then setMutationType qc (f_Args f0) else Inr qc) = Inr qc1 \<and>
            qc_Type qc' = qc_Type qc1 \<and> qc_SType qc' = qc_SType qc1)"
proof -
  let ?st = "fold (\<lambda>f st. if f_ParentID f = -1 then Push (f_ID f OR (- 65536)) st else st)
               (op_Fields op) []"
  from assms obtain f0 fs qc1 sid where
    fs: "op_Fields op = f0 # fs"
    and m: "(if op_Type op = OpMutate then setMutationType qc (f_Args f0) else Inr qc) = Inr qc1"
    and run: "compileQuery_loop co op role (qc1\<lparr>qc_Selects := []\<rparr>) ?st 0 = Inr (qc', sid)"
    unfolding compileQuery_def Let_def
    by (auto split: list.splits sum.splits prod.splits if_splits)
  have "selectsOK (qc_Selects (qc1\<lparr>qc_Selects := []\<rparr>))"
    by (simp add: selectsOK_def)
  from compileQuery_loop_inv[OF run this] have
    "selectsOK (qc_Selects qc')" "length (qc_Selects qc') = nat sid" "sid \<le> maxSelectors"
    "qc_Type qc' = qc_Type qc1" "qc_SType qc' = qc_SType qc1"
    by (simp_all add: maxSelectors_def)
  with fs m show ?thesis
    by (auto simp: maxSelectors_def)
qed

lemma Compile_Inr:
  assumes "Compile co query vars role = Inr qc"
  shows "\<exists>op qc0 qc1. co_Parse co query = Inr op \<and>
           compileQuery co qc0 op role = Inr qc1 \<and>
           ((qc_Type qc1 = QTMutation \<and> co_compileMutation co qc1 op role = Inr qc) \<or>
            (qc_Type qc1 \<noteq> QTMutation \<and> qc = qc1))"
  using assms unfolding Compile_def Let_def
  by (fastforce split: sum.splits OpType.splits if_splits)

section \<open>Verification: the selector limit\<close>


section \<open>Verification: parents come first\<close>

text \<open>
  C2. In a QCode that \<^verbatim>\<open>Compile\<close> returns (the mutation pass being taken to leave
  \<^verbatim>\<open>Selects\<close> as it is), a select whose parent id is not \<open>-1\<close> has a parent id
  below its own id, which is a position of \<^verbatim>\<open>Selects\<close>, and the select at that
  position has the id among its children.
\<close>

theorem Compile_parent_before_child:
  assumes mut: "\<And>q op q'. co_compileMutation co q op role = Inr q' \<Longrightarrow>
                  qc_Selects q' = qc_Selects q"
    and c: "Compile co query vars role = Inr qc"
    and s: "s \<in> set (qc_Selects qc)"
    and p: "sel_ParentID s \<noteq> -1"
  shows "sel_ParentID s < sel_ID s \<and> 0 \<le> sel_ParentID s \<and>
         nat (sel_ParentID s) < length (qc_Selects qc) \<and>
         sel_ID s \<in> set (sel_Children (qc_Selects qc ! nat (sel_ParentID s)))"
proof -
  from Compile_Inr[OF c] obtain op' q0 q1 where
    q: "compileQuery co q0 op' role = Inr q1"
    and r: "(qc_Type q1 = QTMutation \<and> co_compileMutation co q1 op' role = Inr qc) \<or>
            (qc_Type q1 \<noteq> QTMutation \<and> qc = q1)"
    by blast
  have "qc_Selects qc = qc_Selects q1"
  proof (cases "qc_Type q1 = QTMutation")
    case True
    with r have "co_compileMutation co q1 op' role = Inr qc" by simp
    from mut[OF this] show ?thesis .
  next
    case False
    with r show ?thesis by simp
  qed
  with compileQuery_Inr[OF q] have ok: "selectsOK (qc_Selects qc)" by simp
  from s obtain i where i: "i < length (qc_Selects qc)" "s = qc_Selects qc ! i"
    by (auto simp: in_set_conv_nth)
  from ok i(1) have "selectOK (qc_Selects qc) i"
    by (simp add: selectsOK_def list_all_iff)
  with i p show ?thesis
    by (auto simp: selectOK_def)
qed

section \<open>Verification: delete with the literal false\<close>

lemma setMutationType_delete_false:
  assumes "\<forall>a \<in> set pre. a_Name a \<notin> {''insert'', ''update'', ''upsert'', ''delete''}"
    and "a_Name arg = ''delete''" "n_Type (a_Val arg) = NodeBool" "n_Val (a_Val arg) = ''false''"
  shows "setMutationType qc (pre @ arg # post) = Inr (qc\<lparr>qc_SType := QTDelete, qc_Type := QTQuery\<rparr>)"
  using assms by (induction pre) auto

text \<open>
  C8, as amended. For a mutation whose first field has, as the first of its
  arguments named \<^verbatim>\<open>insert\<close>, \<^verbatim>\<open>update\<close>, \<^verbatim>\<open>upsert\<close> or \<^verbatim>\<open>delete\<close>, a \<^verbatim>\<open>delete\<close>
  with the boolean literal \<^verbatim>\<open>false\<close>, every QCode that \<^verbatim>\<open>Compile\<close> returns has the
  kind query (and the sub-kind delete).
\<close>

theorem Compile_delete_false:
  assumes parse: "co_Parse co query = Inr op"
    and mutate: "op_Type op = OpMutate"
    and fields: "op_Fields op = f0 # fs"
    and args: "f_Args f0 = pre @ arg # post"
    and pre: "\<forall>a \<in> set pre. a_Name a \<notin> {''insert'', ''update'', ''upsert'', ''delete''}"
    and arg: "a_Name arg = ''delete''" "n_Type (a_Val arg) = NodeBool"
             "n_Val (a_Val arg) = ''false''"
    and c: "Compile co query vars role = Inr qc"
  shows "qc_Type qc = QTQuery \<and> qc_SType qc = QTDelete"
proof -
  from Compile_Inr[OF c] parse obtain q0 q1 where
    q: "compileQuery co q0 op role = Inr q1"
    and r: "(qc_Type q1 = QTMutation \<and> co_compileMutation co q1 op role = Inr qc) \<or>
            (qc_Type q1 \<noteq> QTMutation \<and> qc = q1)"
    by auto
  from compileQuery_Inr[OF q] fields mutate obtain qm where
    m: "setMutationType q0 (f_Args f0) = Inr qm"
    and k: "qc_Type q1 = qc_Type qm" "qc_SType q1 = qc_SType qm"
    by auto
  from m setMutationType_delete_false[OF pre arg, of q0 post] args
  have "qm = q0\<lparr>qc_SType := QTDelete, qc_Type := QTQuery\<rparr>" by simp
  with k have "qc_Type q1 = QTQuery" "qc_SType q1 = QTDelete" by simp_all
  with r show ?thesis by simp
qed

section \<open>Verification: the claims on the examples\<close>





theorem Compile_parent_before_child_witness:
  "\<exists>qc s. Compile (ex_compiler (ex_policy None) ex_nested) [] Map.empty ''user'' = Inr qc \<and>
     s \<in> set (qc_Selects qc) \<and> sel_ParentID s \<noteq> -1 \<and>
     sel_ID s = 1 \<and> sel_ParentID s = 0 \<and> sel_Children (qc_Selects qc ! 0) = [1] \<and>
     sel_ParentID s < sel_ID s \<and> 0 \<le> sel_ParentID s \<and>
     nat (sel_ParentID s) < length (qc_Selects qc) \<and>
     sel_ID s \<in> set (sel_Children (qc_Selects qc ! nat (sel_ParentID s)))"
proof -
  let ?co = "ex_compiler (ex_policy None) ex_nested"
  have mut: "\<And>q op q'. co_compileMutation ?co q op ''user'' = Inr q' \<Longrightarrow>
                  qc_Selects q' = qc_Selects q"
    by (simp add: ex_compiler_def)
  have "\<exists>qc. Compile ?co [] Map.empty ''user'' = Inr qc \<and> length (qc_Selects qc) = 2 \<and>
          sel_ID (qc_Selects qc ! 1) = 1 \<and> sel_ParentID (qc_Selects qc ! 1) = 0 \<and>
          sel_Children (qc_Selects qc ! 0) = [1]"
    by (simp add: ex_defs model_defs Let_def)
  then obtain qc where c: "Compile ?co [] Map.empty ''user'' = Inr qc"
    and l: "length (qc_Selects qc) = 2"
    and s: "sel_ID (qc_Selects qc ! 1) = 1" "sel_ParentID (qc_Selects qc ! 1) = 0"
      "sel_Children (qc_Selects qc ! 0) = [1]"
    by (elim exE conjE)
  have m: "qc_Selects qc ! 1 \<in> set (qc_Selects qc)" using l by simp
  have p: "sel_ParentID (qc_Selects qc ! 1) \<noteq> -1" using s by simp
  have "sel_ParentID (qc_Selects qc ! 1) < sel_ID (qc_Selects qc ! 1) \<and>
        0 \<le> sel_ParentID (qc_Selects qc ! 1) \<and>
        nat (sel_ParentID (qc_Selects qc ! 1)) < length (qc_Selects qc) \<and>
        sel_ID (qc_Selects qc ! 1)
          \<in> set (sel_Children (qc_Selects qc ! nat (sel_ParentID (qc_Selects qc ! 1))))"
    by (rule Compile_parent_before_child[OF _ c m p]) (erule mut)
  with c m p s show ?thesis by blast
qed

text \<open>
  C8, as stated, fails: the mutation \<^verbatim>\<open>users(insert: $data, delete: false)\<close>
  carries \<^verbatim>\<open>delete: false\<close> and compiles to a QCode of kind mutation, since
  \<^verbatim>\<open>setMutationType\<close> returns at the argument \<^verbatim>\<open>insert\<close>.
\<close>

theorem delete_false_after_insert_is_mutation:
  "\<exists>qc. Compile (ex_compiler (ex_policy None)
              (ex_root OpMutate
                 [ex_arg ''insert'' NodeVar ''data'', ex_arg ''delete'' NodeBool ''false''] []))
            [] Map.empty ''user'' = Inr qc \<and>
        qc_Type qc = QTMutation \<and> qc_SType qc = QTInsert"
  by (simp add: ex_defs model_defs Let_def)

theorem Compile_delete_false_witness:
  "\<exists>qc. Compile (ex_compiler (ex_policy None)
              (ex_root OpMutate
                 [ex_arg ''limit'' NodeNum ''5'', ex_arg ''delete'' NodeBool ''false''] []))
            [] Map.empty ''user'' = Inr qc \<and>
        qc_Type qc = QTQuery \<and> qc_SType qc = QTDelete"
proof -
  let ?pre = "[ex_arg ''limit'' NodeNum ''5'']"
  let ?arg = "ex_arg ''delete'' NodeBool ''false''"
  let ?f0 = "ex_field 0 (-1) ''users'' (?pre @ ?arg # []) []"
  let ?op = "ex_root OpMutate [ex_arg ''limit'' NodeNum ''5'', ?arg] []"
  let ?co = "ex_compiler (ex_policy None) ?op"
  have "\<exists>qc. Compile ?co [] Map.empty ''user'' = Inr qc"
    by (simp add: ex_defs model_defs Let_def)
  then obtain qc where c: "Compile ?co [] Map.empty ''user'' = Inr qc" ..
  have 1: "co_Parse ?co [] = Inr ?op" by (simp add: ex_compiler_def)
  have 2: "op_Type ?op = OpMutate" by (simp add: ex_root_def)
  have 3: "op_Fields ?op = ?f0 # []" by (simp add: ex_root_def)
  have 4: "f_Args ?f0 = ?pre @ ?arg # []" by (simp add: ex_field_def)
  have 5: "\<forall>a \<in> set ?pre. a_Name a \<notin> {''insert'', ''update'', ''upsert'', ''delete''}"
    by (simp add: ex_arg_def)
  have 6: "a_Name ?arg = ''delete''" "n_Type (a_Val ?arg) = NodeBool"
    "n_Val (a_Val ?arg) = ''false''"
    by (simp_all add: ex_arg_def)
  from Compile_delete_false[OF 1 2 3 4 5 6 c] c show ?thesis by blast
qed

section \<open>Verification: the baseline filter and the where argument\<close>




end
